theory Spec2Isabelle
  imports Complex_Main "HOL-Library.Sublist" "HOL-Library.AList" "HOL-Library.Log_Nat"
begin

section \<open>JavaScript strings\<close>

text \<open>
  A JavaScript string is modelled as a \<^typ>\<open>string\<close> whose characters are the code units
  U+0000 to U+00FF. The helpers below are the methods of \<open>String.prototype\<close> the proxy
  calls, with the results JavaScript gives on such strings: \<open>indexOf\<close> answers \<open>-1\<close>
  when the needle is absent, \<open>substr\<close> counts a negative start from the end, \<open>split\<close>
  always returns at least one piece.
\<close>

text \<open>
  \<open>toLowerCase\<close> moves the capital letters \<open>A\<close> to \<open>Z\<close> (65 to 90) and the capital
  letters of Latin-1 (192 to 222, without the multiplication sign 215) to the code unit
  32 higher: bit 5, clear on all of them, is set.
\<close>

definition toLowerChar :: "char \<Rightarrow> char" where
  "toLowerChar c =
     (let n = (of_char c :: nat)
      in if (65 \<le> n \<and> n \<le> 90) \<or> (192 \<le> n \<and> n \<le> 222 \<and> n \<noteq> 215)
         then (case c of Char b0 b1 b2 b3 b4 b5 b6 b7 \<Rightarrow> Char b0 b1 b2 b3 b4 True b6 b7)
         else c)"

definition toLowerCase :: "string \<Rightarrow> string" where
  "toLowerCase s = map toLowerChar s"

definition isWhiteSpace :: "char \<Rightarrow> bool" where
  "isWhiteSpace c = ((of_char c :: nat) \<in> {9, 10, 11, 12, 13, 32, 160})"

definition trim :: "string \<Rightarrow> string" where
  "trim s = rev (dropWhile isWhiteSpace (rev (dropWhile isWhiteSpace s)))"

fun indexOfFrom :: "string \<Rightarrow> string \<Rightarrow> nat \<Rightarrow> int" where
  "indexOfFrom [] needle i = (if needle = [] then int i else - 1)"
| "indexOfFrom (c # cs) needle i =
     (if prefix needle (c # cs) then int i else indexOfFrom cs needle (Suc i))"

definition indexOf :: "string \<Rightarrow> string \<Rightarrow> int" where
  "indexOf s needle = indexOfFrom s needle 0"

definition substr :: "string \<Rightarrow> int \<Rightarrow> string" where
  "substr s start =
     (if start < 0 then drop (length s - nat (- start)) s else drop (nat start) s)"

definition substr2 :: "string \<Rightarrow> int \<Rightarrow> int \<Rightarrow> string" where
  "substr2 s start len = take (nat len) (substr s start)"

fun split :: "char \<Rightarrow> string \<Rightarrow> string list" where
  "split d [] = [[]]"
| "split d (c # cs) =
     (if c = d then [] # split d cs
      else (case split d cs of [] \<Rightarrow> [[c]] | w # ws \<Rightarrow> (c # w) # ws))"

section \<open>ProjectUtilities\<close>

text \<open>\<open>startsWith(subject, needle)\<close>: a case insensitive test that \<open>needle\<close> is at index 0.\<close>

definition startsWith :: "string \<Rightarrow> string \<Rightarrow> bool" where
  "startsWith subject needle = (indexOf (toLowerCase subject) (toLowerCase needle) = 0)"

section \<open>UrlFlexParser: host, protocol and URL parts matching\<close>

text \<open>
  The object \<open>url.parse\<close> returns and \<open>parseAndFixURLParts\<close> repairs. A field that
  is \<open>null\<close> or \<open>undefined\<close> in JavaScript is \<open>None\<close>. \<open>matchAll\<close> is a property of a
  configured serverUrl only: on any other object it is \<open>undefined\<close>, which is falsy.
\<close>

record urlParts =
  protocol :: "string option"
  hostname :: "string option"
  port :: "string option"
  pathname :: "string option"
  path :: "string option"
  query :: "string option"
  host :: "string option"
  matchAll :: "bool option"

text \<open>
  The loop of \<open>testDomainsMatch\<close>, entered only when both arrays have the same length:
  it leaves with \<open>false\<close> at the first position whose pattern piece is neither \<open>*\<close> nor
  the same string as the other piece (JavaScript's \<open>!=\<close> on two strings compares them
  code unit by code unit).
\<close>

function testDomainsMatch_loop :: "string list \<Rightarrow> string list \<Rightarrow> nat \<Rightarrow> bool" where
  "testDomainsMatch_loop domainParts referrerParts i =
     (if i < length domainParts
      then (if domainParts ! i \<noteq> ''*'' \<and> domainParts ! i \<noteq> referrerParts ! i then False
            else testDomainsMatch_loop domainParts referrerParts (Suc i))
      else True)"
  by pat_completeness auto
termination
  by (relation "measure (\<lambda>(domainParts, referrerParts, i). length domainParts - i)") auto

declare testDomainsMatch_loop.simps [simp del]

definition testDomainsMatch :: "string \<Rightarrow> string \<Rightarrow> bool" where
  "testDomainsMatch wildCardDomain referrer =
     (let domainParts = split (CHR ''.'') wildCardDomain;
          referrerParts = split (CHR ''.'') referrer
      in if length domainParts = length referrerParts
         then testDomainsMatch_loop domainParts referrerParts 0
         else False)"

definition testProtocolsMatch :: "string option \<Rightarrow> string option \<Rightarrow> bool" where
  "testProtocolsMatch sourceProtocol targetProtocol =
     (sourceProtocol = Some ''*'' \<or> sourceProtocol = targetProtocol)"

datatype jsError = Error string | TypeError string | ReferenceError string | URIError string

text \<open>
  \<open>parsedUrlPartsMatch(urlPartsSource, urlPartsTarget)\<close>. Calling \<open>split\<close> or
  \<open>toLowerCase\<close> on \<open>null\<close> or \<open>undefined\<close> throws a TypeError. The messages
  the function logs are left out.
\<close>

definition parsedUrlPartsMatch :: "'a urlParts_scheme \<Rightarrow> 'b urlParts_scheme \<Rightarrow> jsError + bool" where
  "parsedUrlPartsMatch urlPartsSource urlPartsTarget =
     (case (hostname urlPartsSource, hostname urlPartsTarget) of
        (Some sourceHost, Some targetHost) \<Rightarrow>
          if testDomainsMatch sourceHost targetHost then
            if protocol urlPartsSource = Some ''*'' \<or> protocol urlPartsTarget = Some ''*''
               \<or> protocol urlPartsSource = protocol urlPartsTarget
            then
              if matchAll urlPartsSource = Some True
              then Inr (path urlPartsTarget = Some ''*'' \<or> path urlPartsTarget = path urlPartsSource)
              else if path urlPartsTarget = Some ''*'' then Inr True
              else (case (path urlPartsTarget, path urlPartsSource) of
                      (Some targetPath, Some sourcePath) \<Rightarrow> Inr (startsWith targetPath sourcePath)
                    | _ \<Rightarrow> Inl (TypeError ''toLowerCase''))
            else Inr False
          else Inr False
      | _ \<Rightarrow> Inl (TypeError ''split''))"

text \<open>
  The host match as the specification words it (section 4.2): equal segment counts and,
  position by position, the pattern's segment is \<open>*\<close> or the two segments are equal
  without regard to case.
\<close>

definition hostMatchSpec :: "string \<Rightarrow> string \<Rightarrow> bool" where
  "hostMatchSpec patternHost requestHost =
     list_all2 (\<lambda>p r. p = ''*'' \<or> toLowerCase p = toLowerCase r)
       (split (CHR ''.'') patternHost) (split (CHR ''.'') requestHost)"

section \<open>JavaScript numbers\<close>

text \<open>
  A JavaScript number is an IEEE 754 double: a finite double, modelled by its value as a
  rational, \<open>Infinity\<close>, \<open>-Infinity\<close> or \<open>NaN\<close>. \<open>Finite x\<close> stands for a double
  when \<open>x\<close> is the value of one. The two zeros are one value here: they differ only as
  divisors, and the divisors of this program (\<open>rateLimitPeriod\<close>, \<open>60\<close> and a rate that
  is a quotient of positive numbers) are never \<open>-0\<close>.
\<close>

datatype number = Finite rat | PositiveInfinity | NegativeInfinity | NaN

text \<open>
  Rounding to the nearest double, ties to the even significand. \<open>binade x\<close> is the
  exponent \<open>e\<close> with \<open>2^e \<le> x < 2^(e+1)\<close> of a positive \<open>x\<close>;
  the doubles near \<open>x\<close> are the multiples of \<open>2^(e-52)\<close>, or of \<open>2^(-1074)\<close> where
  \<open>x\<close> is subnormal; a result of magnitude \<open>2^1024\<close> or more, one whose own
  exponent is 1024 or more, is an infinity.
\<close>

definition binade :: "rat \<Rightarrow> int" where
  "binade x =
     (case quotient_of x of
        (p, q) \<Rightarrow> (let d = bitlen p - bitlen q in if 2 powi d \<le> x then d else d - 1))"

definition roundHalfEven :: "rat \<Rightarrow> int" where
  "roundHalfEven x =
     (let n = \<lfloor>x\<rfloor>; r = x - of_int n
      in if r < 1 / 2 then n else if 1 / 2 < r then n + 1 else if even n then n else n + 1)"

definition toDouble :: "rat \<Rightarrow> number" where
  "toDouble x =
     (if x = 0 then Finite 0
      else (let quantum = 2 powi (max (binade \<bar>x\<bar>) (- 1022) - 52);
                rounded = of_int (roundHalfEven (x / quantum)) * quantum
            in if rounded = 0 then Finite 0
               else if 1024 \<le> binade \<bar>rounded\<bar>
               then (if 0 < rounded then PositiveInfinity else NegativeInfinity)
               else Finite rounded))"


text \<open>The operators \<open>/\<close>, \<open>+\<close>, \<open><\<close> and \<open><=\<close> on numbers.\<close>

fun numDiv :: "number \<Rightarrow> number \<Rightarrow> number" where
  "numDiv (Finite x) (Finite y) =
     (if y = 0 then (if x = 0 then NaN else if 0 < x then PositiveInfinity else NegativeInfinity)
      else toDouble (x / y))"
| "numDiv (Finite x) PositiveInfinity = Finite 0"
| "numDiv (Finite x) NegativeInfinity = Finite 0"
| "numDiv PositiveInfinity (Finite y) = (if 0 \<le> y then PositiveInfinity else NegativeInfinity)"
| "numDiv NegativeInfinity (Finite y) = (if 0 \<le> y then NegativeInfinity else PositiveInfinity)"
| "numDiv _ _ = NaN"

fun numAdd :: "number \<Rightarrow> number \<Rightarrow> number" where
  "numAdd (Finite x) (Finite y) = toDouble (x + y)"
| "numAdd NaN _ = NaN"
| "numAdd _ NaN = NaN"
| "numAdd PositiveInfinity NegativeInfinity = NaN"
| "numAdd NegativeInfinity PositiveInfinity = NaN"
| "numAdd PositiveInfinity _ = PositiveInfinity"
| "numAdd NegativeInfinity _ = NegativeInfinity"
| "numAdd (Finite x) b = b"

fun numLt :: "number \<Rightarrow> number \<Rightarrow> bool" where
  "numLt (Finite x) (Finite y) = (x < y)"
| "numLt NaN _ = False"
| "numLt _ NaN = False"
| "numLt _ NegativeInfinity = False"
| "numLt PositiveInfinity _ = False"
| "numLt _ _ = True"

fun numLe :: "number \<Rightarrow> number \<Rightarrow> bool" where
  "numLe (Finite x) (Finite y) = (x \<le> y)"
| "numLe NaN _ = False"
| "numLe _ NaN = False"
| "numLe NegativeInfinity _ = True"
| "numLe _ PositiveInfinity = True"
| "numLe _ _ = False"

section \<open>Configuration: a configured serverUrl\<close>

text \<open>
  One entry of \<open>configuration.serverUrls\<close> after \<open>postParseConfigurationFile\<close>: the
  parts of its URL, and the settings the rate meter and the forwarder read.
\<close>

record serverUrl = urlParts +
  url :: string
  rateLimit :: number
  rateLimitPeriod :: number
  useRateMeter :: bool
  rate :: number
  ratePeriodSeconds :: number
  accessToken :: "string option"
  token :: "string option"
  mayRequireToken :: bool
  isHostRedirect :: bool
  parsedHostRedirect :: "urlParts option"

text \<open>
  The rate settings of \<open>postParseConfigurationFile\<close>. The arguments are what
  \<open>parseInt\<close> made of the configured \<open>rateLimit\<close> and \<open>rateLimitPeriod\<close> (a whole
  number, \<open>NaN\<close> or an infinity), or \<open>None\<close> where the property is \<open>undefined\<close>.
\<close>

definition postParseRateLimit ::
  "number option \<Rightarrow> number option \<Rightarrow> 'a serverUrl_scheme \<Rightarrow> 'a serverUrl_scheme" where
  "postParseRateLimit configuredLimit configuredPeriod serverUrl =
     (let limit = (case configuredLimit of
                     Some n \<Rightarrow> (if numLt n (Finite 0) then Finite 0 else n)
                   | None \<Rightarrow> Finite 0);
          period = (case configuredPeriod of
                      Some n \<Rightarrow> (if numLt n (Finite 0) then Finite 0 else n)
                    | None \<Rightarrow> Finite 0)
      in if numLt (Finite 0) limit \<and> numLt (Finite 0) period
         then serverUrl\<lparr>rateLimit := limit, rateLimitPeriod := period, useRateMeter := True,
                rate := numDiv (numDiv limit period) (Finite 60),
                ratePeriodSeconds := numDiv (Finite 1) (numDiv (numDiv limit period) (Finite 60))\<rparr>
         else serverUrl\<lparr>rateLimit := limit, rateLimitPeriod := period, useRateMeter := False,
                rate := Finite 0, ratePeriodSeconds := Finite 0\<rparr>)"

section \<open>RateMeter\<close>

text \<open>
  A row of the table \<open>ips\<close>, and the database behind \<open>dbConnection\<close>. What sqlite
  reports to a callback is part of the database's state here: \<open>selectError\<close> is the
  error the SELECT of \<open>isUnderMeterCap\<close> ends with, \<open>updateError\<close> the error its
  UPDATE ends with, \<open>None\<close> when the statement succeeds. The counters are sqlite's
  integers and are taken to stay inside the range, up to \<open>2^53\<close>, in which every whole
  number is a double, so that reading one and adding one to it is exact; \<open>ips_time\<close> and
  \<open>ips_rate\<close> are values of finite doubles.
\<close>

record ipsRow =
  ips_id :: nat
  ips_url :: string
  ips_referrer :: string
  ips_count :: int
  ips_rate :: rat
  ips_time :: rat
  ips_total :: int
  ips_rejected :: int

record database =
  ips :: "ipsRow list"
  selectError :: "jsError option"
  updateError :: "jsError option"

text \<open>
  A promise after its database callbacks have run: resolved with a value, rejected with
  an error, or left pending for ever because a callback threw before it called
  \<open>resolvePromise\<close> or \<open>rejectPromise\<close> (the exception is then uncaught).
\<close>

datatype 'a promise = Resolved 'a | Rejected jsError | Uncaught jsError

text \<open>What \<open>isUnderMeterCap\<close> passes to \<open>resolvePromise\<close>: \<open>isOK\<close>, or an Error object.\<close>

datatype meterAnswer = IsOK bool | ErrorObject jsError

text \<open>
  The identifiers declared where the callback of \<open>dbConnection.get\<close> runs: the
  constants of RateMeter.js, the parameters, variables and functions of the exported
  factory, those of \<open>isUnderMeterCap\<close>, the executor's and the callback's parameters.
  Reading an identifier that is declared nowhere (and is no property of Node's global
  object, which has \<open>URL\<close> but no \<open>url\<close>) throws a ReferenceError.
\<close>

definition isUnderMeterCap_scope :: "string list" where
  "isUnderMeterCap_scope =
     [''sqlite3'', ''fs'',
      ''serverURLs'', ''allowedReferrers'', ''logFunction'',
      ''dbName'', ''dbFileAccessMode'', ''dbConnection'', ''isNewDatabase'', ''serverURLConfig'',
      ''serverAllowedReferrers'', ''errorLoggingFunction'',
      ''logDatabaseError'', ''getMicroTime'', ''createDatabaseIfNotExists'', ''refreshServerUrls'',
      ''openDatabase'', ''closeDatabase'', ''getTotalCount'', ''allRowsAsArray'', ''isUnderMeterCap'',
      ''referrer'', ''serverURL'',
      ''timeOfRequest'', ''newCount'', ''refreshTime'', ''sql'', ''params'', ''promise'', ''isOK'',
      ''resolvePromise'', ''rejectPromise'',
      ''error'', ''queryResult'']"

definition readIdentifier :: "string list \<Rightarrow> string \<Rightarrow> jsError + unit" where
  "readIdentifier scope name = (if name \<in> set scope then Inr () else Inl (ReferenceError name))"

text \<open>\<open>UPDATE ips SET ... WHERE id=?\<close>: every row with that id is rewritten.\<close>

definition updateWhereId :: "nat \<Rightarrow> (ipsRow \<Rightarrow> ipsRow) \<Rightarrow> database \<Rightarrow> database" where
  "updateWhereId rowId change db =
     (case updateError db of
        Some e \<Rightarrow> db
      | None \<Rightarrow> db\<lparr>ips := map (\<lambda>r. if ips_id r = rowId then change r else r) (ips db)\<rparr>)"

text \<open>
  \<open>isUnderMeterCap(referrer, serverURL)\<close> with \<open>timeOfRequest\<close> the value of
  \<open>getMicroTime()\<close>, a finite double. The sum \<open>queryResult.time +
  serverURL.ratePeriodSeconds\<close> is rounded as JavaScript rounds it. It returns the promise and \<open>dbConnection\<close> with the table as the
  UPDATE leaves it. A failed UPDATE is only logged: the promise is resolved all the same.
  When no row matches, the Error's message is built from \<open>referrer\<close> and \<open>url\<close> before
  anything is resolved.
\<close>

definition isUnderMeterCap ::
  "database option \<Rightarrow> rat \<Rightarrow> string \<Rightarrow> 'a serverUrl_scheme \<Rightarrow> meterAnswer promise \<times> database option" where
  "isUnderMeterCap dbConnection timeOfRequest referrer serverURL =
     (case dbConnection of
        None \<Rightarrow> (Rejected (Error ''Database connection was not open. Call start() first.''), None)
      | Some db \<Rightarrow>
          (case selectError db of
             Some error \<Rightarrow> (Rejected error, Some db)
           | None \<Rightarrow>
               (case find (\<lambda>r. ips_referrer r = referrer \<and> ips_url r = url serverURL) (ips db) of
                  Some queryResult \<Rightarrow>
                    if ips_count queryResult = 0
                       \<or> numLe (numAdd (Finite (ips_time queryResult)) (ratePeriodSeconds serverURL))
                            (Finite timeOfRequest)
                    then (Resolved (IsOK True),
                          Some (updateWhereId (ips_id queryResult)
                            (\<lambda>r. r\<lparr>ips_total := ips_total r + 1, ips_count := 1, ips_time := timeOfRequest\<rparr>) db))
                    else if numLt (Finite (of_int (ips_count queryResult))) (rate serverURL)
                    then (Resolved (IsOK True),
                          Some (updateWhereId (ips_id queryResult)
                            (\<lambda>r. r\<lparr>ips_total := ips_total r + 1, ips_count := ips_count queryResult + 1,
                                   ips_time := ips_time queryResult\<rparr>) db))
                    else (Resolved (IsOK False),
                          Some (updateWhereId (ips_id queryResult)
                            (\<lambda>r. r\<lparr>ips_rejected := ips_rejected r + 1\<rparr>) db))
                | None \<Rightarrow>
                    (case readIdentifier isUnderMeterCap_scope ''url'' of
                       Inl thrown \<Rightarrow> (Uncaught thrown, Some db)
                     | Inr _ \<Rightarrow>
                         (Resolved (ErrorObject (Error (''no record exists for '' @ referrer @ '', '' @ url serverURL))),
                          Some db)))))"


section \<open>UrlFlexParser: parsing and referrer validation\<close>

text \<open>
  Node's library is a parameter of the model: \<open>url_parse\<close> is \<open>url.parse\<close>, of which
  the proxy reads five properties (\<open>null\<close> is \<open>None\<close>), and \<open>decodeURI\<close> is the
  global function, which throws a URIError on a malformed escape sequence.
\<close>

record nodeUrl =
  nu_protocol :: "string option"
  nu_hostname :: "string option"
  nu_port :: "string option"
  nu_pathname :: "string option"
  nu_query :: "string option"

record node =
  url_parse :: "string \<Rightarrow> nodeUrl"
  decodeURI :: "string \<Rightarrow> jsError + string"

definition parseAndFixURLParts :: "node \<Rightarrow> string \<Rightarrow> urlParts" where
  "parseAndFixURLParts nodejs u =
     (let parsed = url_parse nodejs u;
          fixedProtocol =
            (case nu_protocol parsed of
               None \<Rightarrow> ''*''
             | Some p \<Rightarrow>
                 if p = [] then ''*''
                 else (let delimiter = indexOf p '':''
                       in if delimiter > 0 then substr2 p 0 delimiter else p));
          hostAndPath =
            (if nu_hostname parsed = None \<or> nu_hostname parsed = Some []
             then (let h0 = (case nu_pathname parsed of
                               None \<Rightarrow> ''*''
                             | Some pn \<Rightarrow> if pn = [] then ''*'' else pn);
                       d1 = indexOf h0 ''//'';
                       h1 = (if d1 \<ge> 0 then substr h0 (d1 + 2) else h0);
                       h2 = dropWhile (\<lambda>c. c = CHR ''/'') h1;
                       d2 = indexOf h2 ''/''
                   in if d2 > 0 then (Some (substr2 h2 0 d2), Some (substr h2 d2))
                      else (Some h2, Some ''*''))
             else (nu_hostname parsed, nu_pathname parsed));
          fixedPort =
            (case nu_port parsed of None \<Rightarrow> ''*'' | Some p \<Rightarrow> if p = [] then ''*'' else p);
          fixedPathname =
            (case snd hostAndPath of
               None \<Rightarrow> ''*''
             | Some pn \<Rightarrow> if pn = [] \<or> pn = ''/*'' \<or> pn = ''/'' then ''*'' else pn)
      in \<lparr>protocol = Some fixedProtocol, hostname = fst hostAndPath, port = Some fixedPort,
          pathname = Some fixedPathname, path = Some fixedPathname, query = nu_query parsed,
          host = fst hostAndPath, matchAll = None\<rparr>)"

text \<open>
  An entry of \<open>configuration.allowedReferrers\<close>. The entries \<open>postParseConfigurationFile\<close>
  builds have four strings; the default list \<open>['*']\<close> holds a string, whose four
  properties are all \<open>undefined\<close>.
\<close>

record allowedReferrer =
  ar_protocol :: "string option"
  ar_hostname :: "string option"
  ar_path :: "string option"
  ar_referrer :: "string option"

text \<open>The module variables of UrlFlexParser.js, as \<open>setConfiguration\<close> leaves them.\<close>

record urlFlexParser =
  ufp_allowAnyReferrer :: bool
  ufp_matchAllReferrer :: bool
  ufp_useHTTPS :: bool

text \<open>
  The loop of \<open>validatedReferrerFromReferrer\<close> over \<open>allowedReferrers\<close>: it stops at the
  first entry that matches and answers that entry's \<open>referrer\<close>; \<open>None\<close> is the
  \<open>null\<close> it answers when nothing matched.
\<close>

fun validatedReferrer_loop ::
  "bool \<Rightarrow> urlParts \<Rightarrow> allowedReferrer list \<Rightarrow> jsError + string option" where
  "validatedReferrer_loop matchAllReferrer referrerParts [] = Inr None"
| "validatedReferrer_loop matchAllReferrer referrerParts (referrerToCheckParts # others) =
     (if testProtocolsMatch (ar_protocol referrerToCheckParts) (protocol referrerParts)
      then
        (case (if ar_hostname referrerToCheckParts = Some ''*'' then Inr True
               else (case (ar_hostname referrerToCheckParts, hostname referrerParts) of
                       (Some checkHost, Some referrerHost) \<Rightarrow> Inr (testDomainsMatch checkHost referrerHost)
                     | _ \<Rightarrow> Inl (TypeError ''split''))) of
           Inl thrown \<Rightarrow> Inl thrown
         | Inr hostsMatch \<Rightarrow>
             if hostsMatch then
               if ar_path referrerToCheckParts = Some ''*''
                  \<or> ar_path referrerToCheckParts = path referrerParts
               then Inr (ar_referrer referrerToCheckParts)
               else if \<not> matchAllReferrer then
                 (case (path referrerParts, ar_path referrerToCheckParts) of
                    (Some referrerPath, Some checkPath) \<Rightarrow>
                      if startsWith referrerPath checkPath then Inr (ar_referrer referrerToCheckParts)
                      else validatedReferrer_loop matchAllReferrer referrerParts others
                  | _ \<Rightarrow> Inl (TypeError ''toLowerCase''))
               else validatedReferrer_loop matchAllReferrer referrerParts others
             else validatedReferrer_loop matchAllReferrer referrerParts others)
      else validatedReferrer_loop matchAllReferrer referrerParts others)"

definition validatedReferrerFromReferrer ::
  "node \<Rightarrow> urlFlexParser \<Rightarrow> string option \<Rightarrow> allowedReferrer list \<Rightarrow> jsError + string option" where
  "validatedReferrerFromReferrer nodejs parser referrer allowedReferrers =
     (if ufp_allowAnyReferrer parser then Inr (Some ''*'')
      else (case referrer of
              None \<Rightarrow> Inr None
            | Some r \<Rightarrow>
                if length r > 0
                then (let parsed = parseAndFixURLParts nodejs (trim (toLowerCase r));
                          referrerParts = (if hostname parsed = None
                                           then parsed\<lparr>hostname := Some ''*''\<rparr> else parsed)
                      in validatedReferrer_loop (ufp_matchAllReferrer parser) referrerParts allowedReferrers)
                else Inr None))"

definition fullReferrerURLFromParts :: "allowedReferrer \<Rightarrow> jsError + string" where
  "fullReferrerURLFromParts urlParts =
     (if ar_protocol urlParts = Some ''*'' \<and> ar_hostname urlParts = Some ''*'' \<and> ar_path urlParts = Some ''*''
      then Inr ''*''
      else (case ar_path urlParts of
              None \<Rightarrow> Inl (TypeError ''charAt'')
            | Some p \<Rightarrow>
                Inr ((case ar_protocol urlParts of None \<Rightarrow> ''undefined'' | Some x \<Rightarrow> x) @ ''://''
                     @ (case ar_hostname urlParts of None \<Rightarrow> ''undefined'' | Some x \<Rightarrow> x)
                     @ (if take 1 p = ''/'' then p else ''/'' @ p))))"

section \<open>Configuration: the server's settings and its referrer allow-list\<close>

text \<open>
  The settings the dispatcher reads. \<open>getStringTableEntry\<close> stands for the function of
  that name with the string table the server has loaded: it turns a key and the values
  of its placeholders into a message.
\<close>

record configuration =
  mustMatch :: bool
  localPingURL :: string
  localStatusURL :: string
  localEchoURL :: "string option"
  staticFilePath :: "string option"
  listenURI :: "string list"
  allowedReferrers :: "allowedReferrer list"
  allowAnyReferrer :: bool
  matchAllReferrer :: bool
  useHTTPS :: bool
  serverUrls :: "serverUrl list"
  getStringTableEntry :: "string \<Rightarrow> (string \<times> string) list \<Rightarrow> string"

text \<open>
  \<open>allowedReferrers\<close> of the configuration file: an array of strings, or one string that
  is split at its commas when it has one.
\<close>

datatype referrersSection = ReferrersArray "string list" | ReferrersString string

definition referrersAsArray :: "referrersSection \<Rightarrow> string list" where
  "referrersAsArray allowedReferrersSection =
     (case allowedReferrersSection of
        ReferrersArray entries \<Rightarrow> entries
      | ReferrersString s \<Rightarrow> if indexOf s '','' \<ge> 0 then split (CHR '','') s else [s])"

text \<open>
  The loop of \<open>postParseConfigurationFile\<close> that caches the allowed referrers: the entry
  \<open>*\<close> switches \<open>allowAnyReferrer\<close> on, any other entry is parsed once and for all.
\<close>

fun cacheAllowedReferrers :: "node \<Rightarrow> string list \<Rightarrow> configuration \<Rightarrow> jsError + configuration" where
  "cacheAllowedReferrers nodejs [] cfg = Inr cfg"
| "cacheAllowedReferrers nodejs (entry # entries) cfg =
     (if entry = ''*''
      then cacheAllowedReferrers nodejs entries
             (cfg\<lparr>allowAnyReferrer := True,
                  allowedReferrers := allowedReferrers cfg @
                    [\<lparr>ar_protocol = Some ''*'', ar_hostname = Some ''*'', ar_path = Some ''*'',
                      ar_referrer = Some ''*''\<rparr>]\<rparr>)
      else (let referrerToCheckParts = parseAndFixURLParts nodejs (trim (toLowerCase entry));
                withProtocol = (case protocol referrerToCheckParts of
                                  None \<Rightarrow> Some ''*'' | Some p \<Rightarrow> Some p);
                referrerValidated =
                  (case hostname referrerToCheckParts of
                     Some h \<Rightarrow> \<lparr>ar_protocol = withProtocol, ar_hostname = Some h,
                                ar_path = path referrerToCheckParts, ar_referrer = Some ''*''\<rparr>
                   | None \<Rightarrow> \<lparr>ar_protocol = withProtocol, ar_hostname = path referrerToCheckParts,
                              ar_path = Some ''*'', ar_referrer = Some ''*''\<rparr>)
            in (case fullReferrerURLFromParts referrerValidated of
                  Inl thrown \<Rightarrow> Inl thrown
                | Inr key \<Rightarrow>
                    cacheAllowedReferrers nodejs entries
                      (cfg\<lparr>allowedReferrers := allowedReferrers cfg @
                             [referrerValidated\<lparr>ar_referrer := Some key\<rparr>]\<rparr>))))"

definition postParseAllowedReferrers ::
  "node \<Rightarrow> referrersSection option \<Rightarrow> configuration \<Rightarrow> jsError + configuration" where
  "postParseAllowedReferrers nodejs allowedReferrersSection cfg =
     (case allowedReferrersSection of
        None \<Rightarrow> Inr cfg
      | Some section \<Rightarrow>
          cacheAllowedReferrers nodejs (referrersAsArray section) (cfg\<lparr>allowedReferrers := []\<rparr>))"

definition setConfiguration :: "configuration \<Rightarrow> urlFlexParser" where
  "setConfiguration cfg =
     \<lparr>ufp_allowAnyReferrer = allowAnyReferrer cfg, ufp_matchAllReferrer = matchAllReferrer cfg,
      ufp_useHTTPS = useHTTPS cfg\<rparr>"

section \<open>ProjectUtilities: query strings and parameter objects\<close>

text \<open>
  \<open>encodeURIComponent\<close> and \<open>decodeURIComponent\<close> on the strings of this model. A code
  unit below 128 that is not unreserved is escaped as one byte, \<open>%XX\<close> with capital
  hexadecimal digits; a code unit from 128 to 255 as the two bytes of its UTF-8 form.
  \<open>decodeURIComponent\<close> throws a URIError on a \<open>%\<close> that two hexadecimal digits do not
  follow and on bytes that are not UTF-8. Escapes whose lead byte is \<open>C4\<close> or more lie
  outside the model (they decode, if at all, to code points above U+00FF): for these the
  answer is \<open>BeyondModel\<close>, and nothing is claimed about them.
\<close>

datatype failure = Thrown jsError | BeyondModel

definition isUnreserved :: "char \<Rightarrow> bool" where
  "isUnreserved c =
     (let n = (of_char c :: nat)
      in (65 \<le> n \<and> n \<le> 90) \<or> (97 \<le> n \<and> n \<le> 122) \<or> (48 \<le> n \<and> n \<le> 57)
         \<or> c \<in> set ''-_.!~*'()'')"

definition hexDigit :: "nat \<Rightarrow> char" where
  "hexDigit n = ''0123456789ABCDEF'' ! (n mod 16)"

definition hexValue :: "char \<Rightarrow> nat option" where
  "hexValue c =
     (let n = (of_char c :: nat)
      in if 48 \<le> n \<and> n \<le> 57 then Some (n - 48)
         else if 65 \<le> n \<and> n \<le> 70 then Some (n - 55)
         else if 97 \<le> n \<and> n \<le> 102 then Some (n - 87)
         else None)"

definition escapeByte :: "nat \<Rightarrow> string" where
  "escapeByte b = [CHR ''%'', hexDigit (b div 16), hexDigit (b mod 16)]"

definition encodeChar :: "char \<Rightarrow> string" where
  "encodeChar c =
     (let n = (of_char c :: nat)
      in if isUnreserved c then [c]
         else if n < 128 then escapeByte n
         else escapeByte (192 + n div 64) @ escapeByte (128 + n mod 64))"

definition encodeURIComponent :: "string \<Rightarrow> string" where
  "encodeURIComponent s = concat (map encodeChar s)"

text \<open>The byte an escape \<open>%XX\<close> at the head of the string stands for, and what follows it.\<close>

fun escapedByte :: "string \<Rightarrow> (nat \<times> string) option" where
  "escapedByte (p # h1 # h2 # rest) =
     (if p = CHR ''%'' then
        (case (hexValue h1, hexValue h2) of
           (Some a, Some b) \<Rightarrow> Some (16 * a + b, rest)
         | _ \<Rightarrow> None)
      else None)"
| "escapedByte _ = None"

function decodeURIComponent :: "string \<Rightarrow> failure + string" where
  "decodeURIComponent [] = Inr []"
| "decodeURIComponent (c # cs) =
     (if c \<noteq> CHR ''%'' then
        (case decodeURIComponent cs of Inl failure \<Rightarrow> Inl failure | Inr decoded \<Rightarrow> Inr (c # decoded))
      else
        (case escapedByte (c # cs) of
           None \<Rightarrow> Inl (Thrown (URIError ''URI malformed''))
         | Some (byte, rest) \<Rightarrow>
             if byte < 128 then
               (case decodeURIComponent rest of
                  Inl failure \<Rightarrow> Inl failure
                | Inr decoded \<Rightarrow> Inr (char_of byte # decoded))
             else if byte < 194 then Inl (Thrown (URIError ''URI malformed''))
             else if byte < 196 then
               (case escapedByte rest of
                  None \<Rightarrow> Inl (Thrown (URIError ''URI malformed''))
                | Some (continuation, rest2) \<Rightarrow>
                    if 128 \<le> continuation \<and> continuation < 192 then
                      (case decodeURIComponent rest2 of
                         Inl failure \<Rightarrow> Inl failure
                       | Inr decoded \<Rightarrow>
                           Inr (char_of ((byte - 192) * 64 + (continuation - 128)) # decoded))
                    else Inl (Thrown (URIError ''URI malformed'')))
             else Inl BeyondModel))"
  by pat_completeness auto

termination
  by (relation "measure length")
    (auto elim!: escapedByte.elims split: if_splits option.splits prod.splits)

text \<open>
  The matches of \<open>/([^&=]+)=?([^&]*)/g\<close> in a query string, from left to right, each
  as its two groups: a match starts at the first character that is neither \<open>&\<close> nor
  \<open>=\<close>, the key runs while that holds, one \<open>=\<close> is passed over if it is next, and the
  value runs to the next \<open>&\<close>.
\<close>

function queryMatches :: "string \<Rightarrow> (string \<times> string) list" where
  "queryMatches s =
     (let fromKey = dropWhile (\<lambda>c. c = CHR ''&'' \<or> c = CHR ''='') s
      in if fromKey = [] then []
         else (let key = takeWhile (\<lambda>c. c \<noteq> CHR ''&'' \<and> c \<noteq> CHR ''='') fromKey;
                   afterKey = dropWhile (\<lambda>c. c \<noteq> CHR ''&'' \<and> c \<noteq> CHR ''='') fromKey;
                   afterEquals = (if take 1 afterKey = ''='' then drop 1 afterKey else afterKey);
                   value = takeWhile (\<lambda>c. c \<noteq> CHR ''&'') afterEquals;
                   rest = dropWhile (\<lambda>c. c \<noteq> CHR ''&'') afterEquals
               in (key, value) # queryMatches rest))"
  by pat_completeness auto
termination
proof (relation "measure length")
  show "wf (measure length)" by simp
next
  fix s fromKey key afterKey afterEquals v rest :: string
  assume fromKey: "fromKey = dropWhile (\<lambda>c. c = CHR ''&'' \<or> c = CHR ''='') s"
    and nonempty: "fromKey \<noteq> []"
    and "key = takeWhile (\<lambda>c. c \<noteq> CHR ''&'' \<and> c \<noteq> CHR ''='') fromKey"
    and afterKey: "afterKey = dropWhile (\<lambda>c. c \<noteq> CHR ''&'' \<and> c \<noteq> CHR ''='') fromKey"
    and afterEquals: "afterEquals = (if take 1 afterKey = ''='' then drop 1 afterKey else afterKey)"
    and "v = takeWhile (\<lambda>c. c \<noteq> CHR ''&'') afterEquals"
    and rest: "rest = dropWhile (\<lambda>c. c \<noteq> CHR ''&'') afterEquals"
  have "length rest \<le> length afterEquals"
    unfolding rest by (rule length_dropWhile_le)
  also have "\<dots> \<le> length afterKey"
    unfolding afterEquals by simp
  also have "\<dots> < length fromKey"
  proof (cases fromKey)
    case Nil
    with nonempty show ?thesis by simp
  next
    case (Cons c cs)
    have "\<not> (c = CHR ''&'' \<or> c = CHR ''='')"
      using hd_dropWhile [of "\<lambda>c. c = CHR ''&'' \<or> c = CHR ''=''" s] nonempty
      unfolding fromKey [symmetric] Cons by simp
    then have "afterKey = dropWhile (\<lambda>c. c \<noteq> CHR ''&'' \<and> c \<noteq> CHR ''='') cs"
      unfolding afterKey Cons by simp
    then have "length afterKey \<le> length cs"
      by (simp add: length_dropWhile_le)
    then show ?thesis unfolding Cons by simp
  qed
  also have "\<dots> \<le> length s"
    unfolding fromKey by (rule length_dropWhile_le)
  finally show "(rest, s) \<in> measure length"
    by simp
qed

declare queryMatches.simps [simp del]

text \<open>
  A parameter object: its own properties, all strings, in the order they were created.
  Assigning to \<open>__proto__\<close> creates no property (the value is a string, which the
  setter of \<open>Object.prototype\<close> ignores); assigning to a property that exists keeps
  its place. \<open>for (key in object)\<close> visits the array indices first, in ascending
  order, then the other keys in creation order. A call of \<open>object.hasOwnProperty\<close>
  throws a TypeError when the object has a property of that name, which is then a string.
\<close>

type_synonym jsObject = "(string \<times> string) list"

definition setProperty :: "string \<Rightarrow> string \<Rightarrow> jsObject \<Rightarrow> jsObject" where
  "setProperty key v object = (if key = ''__proto__'' then object else AList.update key v object)"

definition digitsValue :: "string \<Rightarrow> nat" where
  "digitsValue s = foldl (\<lambda>n c. 10 * n + (of_char c - 48)) 0 s"

definition isDecimal :: "string \<Rightarrow> bool" where
  "isDecimal s = (s \<noteq> [] \<and> list_all (\<lambda>c. 48 \<le> (of_char c :: nat) \<and> (of_char c :: nat) \<le> 57) s)"

definition isArrayIndex :: "string \<Rightarrow> bool" where
  "isArrayIndex s =
     (isDecimal s \<and> (s = ''0'' \<or> take 1 s \<noteq> ''0'') \<and> digitsValue s < 4294967295)"

definition forIn :: "jsObject \<Rightarrow> jsObject" where
  "forIn object =
     sort_key (\<lambda>p. digitsValue (fst p)) (filter (\<lambda>p. isArrayIndex (fst p)) object)
     @ filter (\<lambda>p. \<not> isArrayIndex (fst p)) object"

definition hasOwnProperty :: "jsObject \<Rightarrow> string \<Rightarrow> failure + bool" where
  "hasOwnProperty object key =
     (case map_of object ''hasOwnProperty'' of
        Some shadow \<Rightarrow> Inl (Thrown (TypeError ''object.hasOwnProperty is not a function''))
      | None \<Rightarrow> Inr (map_of object key \<noteq> None))"

definition decode :: "string \<Rightarrow> failure + string" where
  "decode s = decodeURIComponent (map (\<lambda>c. if c = CHR ''+'' then CHR '' '' else c) s)"

fun storeMatches :: "(string \<times> string) list \<Rightarrow> jsObject \<Rightarrow> failure + jsObject" where
  "storeMatches [] result = Inr result"
| "storeMatches (match # matches) result =
     (case decode (fst match) of
        Inl failed \<Rightarrow> Inl failed
      | Inr key \<Rightarrow>
          (case decode (snd match) of
             Inl failed \<Rightarrow> Inl failed
           | Inr v \<Rightarrow> storeMatches matches (setProperty key v result)))"

definition queryStringToObject :: "string \<Rightarrow> failure + jsObject" where
  "queryStringToObject urlParameterString =
     storeMatches
       (queryMatches (if take 1 urlParameterString = ''?'' then drop 1 urlParameterString
                      else urlParameterString)) []"

text \<open>\<open>objectToQueryString\<close> on a parameter object (no value is an array, null or undefined).\<close>

fun joinPairs :: "string \<Rightarrow> jsObject \<Rightarrow> string" where
  "joinPairs urlParameterString [] = urlParameterString"
| "joinPairs urlParameterString (p # ps) =
     joinPairs (urlParameterString @ (if length urlParameterString = 0 then [] else ''&'')
                @ encodeURIComponent (fst p) @ ''='' @ encodeURIComponent (snd p)) ps"

definition objectToQueryString :: "jsObject \<Rightarrow> failure + string" where
  "objectToQueryString object =
     (if forIn object = [] then Inr []
      else (case hasOwnProperty object (fst (hd (forIn object))) of
              Inl failed \<Rightarrow> Inl failed
            | Inr own \<Rightarrow> Inr (joinPairs [] (forIn object))))"

definition isPropertySet :: "string option \<Rightarrow> bool" where
  "isPropertySet property = (case property of None \<Rightarrow> False | Some v \<Rightarrow> length (trim v) > 0)"

text \<open>
  \<open>addIfPropertyNotSet(object, key, value)\<close>. \<open>object[key]\<close> is the object's own
  property or, failing that, what \<open>Object.prototype\<close> has under that name: a function or
  an object, whose \<open>toString()\<close> is not blank.
\<close>

definition objectPrototypeKeys :: "string list" where
  "objectPrototypeKeys =
     [''constructor'', ''__defineGetter__'', ''__defineSetter__'', ''hasOwnProperty'',
      ''__lookupGetter__'', ''__lookupSetter__'', ''isPrototypeOf'', ''propertyIsEnumerable'',
      ''toString'', ''valueOf'', ''__proto__'', ''toLocaleString'']"

definition addIfPropertyNotSet :: "jsObject \<Rightarrow> string \<Rightarrow> string \<Rightarrow> jsObject" where
  "addIfPropertyNotSet object key v =
     (case map_of object key of
        Some present \<Rightarrow> if length (trim present) = 0 then setProperty key v object else object
      | None \<Rightarrow> if key \<in> set objectPrototypeKeys then object else setProperty key v object)"

section \<open>proxy.js: requests, replies and the parameters of a forwarded request\<close>

text \<open>
  What \<open>parseURLRequest\<close> returns, and the properties of Node's request object the
  proxy reads. \<open>req_headers\<close> is \<open>request.headers\<close> (Node stores header names in lower
  case), \<open>req_query\<close> is \<open>request.query\<close>, which Node itself never sets.
\<close>

record requestParts =
  listenPath :: string
  proxyPath :: string
  rp_query :: string
  rp_protocol :: string

record request =
  req_url :: string
  req_method :: string
  req_headers :: "string \<Rightarrow> string option"
  req_query :: "string option"

text \<open>
  The loop of \<open>combineParameters\<close> that copies the request's parameters over the
  configured ones, and \<open>combineParameters\<close> itself.
\<close>

fun overlayParameters :: "jsObject \<Rightarrow> jsObject \<Rightarrow> jsObject \<Rightarrow> failure + jsObject" where
  "overlayParameters [] requestParameters configuredParameters = Inr configuredParameters"
| "overlayParameters (p # ps) requestParameters configuredParameters =
     (case hasOwnProperty requestParameters (fst p) of
        Inl failed \<Rightarrow> Inl failed
      | Inr own \<Rightarrow>
          overlayParameters ps requestParameters
            (if own then setProperty (fst p) (snd p) configuredParameters else configuredParameters))"

definition combineParameters ::
  "request \<Rightarrow> requestParts \<Rightarrow> 'a serverUrl_scheme \<Rightarrow> failure + jsObject" where
  "combineParameters req urlParts serverURLInfo =
     (case (case query serverURLInfo of
              None \<Rightarrow> Inr []
            | Some q \<Rightarrow> if length q > 0 then queryStringToObject q else Inr []) of
        Inl failed \<Rightarrow> Inl failed
      | Inr configuredParameters \<Rightarrow>
          (case (if req_method req = ''GET''
                 then (if length (rp_query urlParts) > 0 then Some (rp_query urlParts) else None)
                 else if req_method req = ''POST'' then req_query req
                 else None) of
             None \<Rightarrow> Inr configuredParameters
           | Some requestQuery \<Rightarrow>
               (case queryStringToObject requestQuery of
                  Inl failed \<Rightarrow> Inl failed
                | Inr requestParameters \<Rightarrow>
                    overlayParameters (forIn requestParameters) requestParameters configuredParameters)))"

text \<open>
  The value of \<open>parameters\<close> in \<open>processValidatedRequest\<close> once the configured
  token has been considered (the statements from \<open>combineParameters\<close> to the second
  \<open>addIfPropertyNotSet\<close>).
\<close>

definition configuredToken :: "'a serverUrl_scheme \<Rightarrow> string option" where
  "configuredToken serverURLInfo =
     (if isPropertySet (accessToken serverURLInfo) then accessToken serverURLInfo
      else if isPropertySet (token serverURLInfo) then token serverURLInfo
      else None)"

definition requestParameters ::
  "request \<Rightarrow> requestParts \<Rightarrow> 'a serverUrl_scheme \<Rightarrow> failure + jsObject" where
  "requestParameters req urlRequestedParts serverURLInfo =
     (case combineParameters req urlRequestedParts serverURLInfo of
        Inl failed \<Rightarrow> Inl failed
      | Inr parameters \<Rightarrow>
          (case configuredToken serverURLInfo of
             Some staticToken \<Rightarrow> Inr (addIfPropertyNotSet parameters ''token'' staticToken)
           | None \<Rightarrow> Inr parameters))"

text \<open>
  \<open>parseQuery\<close> is a query as a parameter object, the empty object for a query that
  is absent or empty. Then the parameter map as the specification words it (section 4.4): the configured query as
  a map from keys to values, overlaid with the request's, and the static access token
  injected exactly when the merged map has no \<open>token\<close> key.
\<close>

definition parseQuery :: "string option \<Rightarrow> failure + jsObject" where
  "parseQuery q =
     (case q of None \<Rightarrow> Inr [] | Some s \<Rightarrow> if length s > 0 then queryStringToObject s else Inr [])"

definition mergedParametersSpec ::
  "jsObject \<Rightarrow> jsObject \<Rightarrow> string option \<Rightarrow> (string \<Rightarrow> string option)" where
  "mergedParametersSpec configured requested staticToken =
     (let merged = map_of configured ++ map_of requested
      in case staticToken of
           None \<Rightarrow> merged
         | Some t \<Rightarrow> if merged ''token'' = None then merged(''token'' \<mapsto> t) else merged)"

section \<open>UrlFlexParser: the request line and the URL of the forwarded request\<close>

definition charAt :: "string \<Rightarrow> nat \<Rightarrow> string" where
  "charAt s i = (if i < length s then [s ! i] else [])"

text \<open>
  One step of \<open>parseURLRequest\<close>: when \<open>lookFor\<close> occurs in the URL, the proxied path
  starts at the last character of its first occurrence and the listen path is what
  stands before it.
\<close>

definition cutAt :: "string \<Rightarrow> string \<Rightarrow> (string \<times> string) option" where
  "cutAt lookFor u =
     (let charDelimiter = indexOf u lookFor
      in if charDelimiter \<ge> 0
         then Some (substr u (charDelimiter + int (length lookFor) - 1), substr2 u 0 charDelimiter)
         else None)"

fun firstCut :: "string list \<Rightarrow> string \<Rightarrow> (string \<times> string) option" where
  "firstCut [] u = None"
| "firstCut (lookFor # others) u =
     (case cutAt lookFor u of Some found \<Rightarrow> Some found | None \<Rightarrow> firstCut others u)"

fun listenUriCut :: "string list \<Rightarrow> string \<Rightarrow> (string \<times> string) option" where
  "listenUriCut [] u = None"
| "listenUriCut (listenUri # others) u =
     (let lookFor = (if charAt listenUri (length listenUri) \<noteq> ''/'' then listenUri @ ''/''
                     else listenUri)
      in if indexOf u lookFor = 0 then Some (substr u (int (length lookFor)), listenUri)
         else listenUriCut others u)"

definition parseURLRequest :: "node \<Rightarrow> string \<Rightarrow> string list \<Rightarrow> jsError + requestParts" where
  "parseURLRequest nodejs requestUrl listenUriList =
     (case decodeURI nodejs requestUrl of
        Inl thrown \<Rightarrow> Inl thrown
      | Inr u \<Rightarrow>
          if length u > 0 then
            (let found =
                   (case firstCut [''/https/'', ''?https://'', ''&https://''] u of
                      Some (proxied, listen) \<Rightarrow> (''https'', proxied, listen)
                    | None \<Rightarrow>
                        (case firstCut [''/http/'', ''?http://'', ''&http://''] u of
                           Some (proxied, listen) \<Rightarrow> (''http'', proxied, listen)
                         | None \<Rightarrow>
                             (case cutAt ''/*/'' u of
                                Some (proxied, listen) \<Rightarrow> (''*'', proxied, listen)
                              | None \<Rightarrow>
                                  (case listenUriCut listenUriList u of
                                     Some (proxied, listen) \<Rightarrow> (''*'', proxied, listen)
                                   | None \<Rightarrow> (''*'', [], u)))));
                 proxied = fst (snd found);
                 charDelimiter = indexOf proxied ''?''
             in Inr \<lparr>listenPath = snd (snd found),
                      proxyPath = (if charDelimiter \<ge> 0 then substr2 proxied 0 charDelimiter else proxied),
                      rp_query = (if charDelimiter \<ge> 0 then substr proxied (charDelimiter + 1) else []),
                      rp_protocol = fst found\<rparr>)
          else Inr \<lparr>listenPath = [], proxyPath = [], rp_query = [], rp_protocol = ''*''\<rparr>)"

definition getBestMatchProtocol ::
  "node \<Rightarrow> urlFlexParser \<Rightarrow> string \<Rightarrow> requestParts \<Rightarrow> 'a serverUrl_scheme \<Rightarrow> string" where
  "getBestMatchProtocol nodejs parser referrer urlRequestedParts serverURLInfo =
     (let referrerParts = parseAndFixURLParts nodejs referrer;
          chosen =
            (if protocol serverURLInfo = Some ''*'' then
               (if rp_protocol urlRequestedParts = ''*'' then
                  (if protocol referrerParts \<noteq> None \<and> protocol referrerParts \<noteq> Some ''*''
                   then protocol referrerParts else None)
                else Some (rp_protocol urlRequestedParts))
             else protocol serverURLInfo)
      in case chosen of
           None \<Rightarrow> (if ufp_useHTTPS parser then ''https'' else ''http'')
         | Some p \<Rightarrow> if p = ''*'' then (if ufp_useHTTPS parser then ''https'' else ''http'') else p)"

definition buildURLFromReferrerRequestAndInfo ::
  "node \<Rightarrow> urlFlexParser \<Rightarrow> string \<Rightarrow> requestParts \<Rightarrow> 'a serverUrl_scheme \<Rightarrow> string" where
  "buildURLFromReferrerRequestAndInfo nodejs parser referrer urlRequestedParts serverURLInfo =
     (let proxyRequest = url serverURLInfo;
          best = getBestMatchProtocol nodejs parser referrer urlRequestedParts serverURLInfo;
          delimiter = indexOf proxyRequest ''://'';
          withProtocol =
            (if delimiter < 0 then best @ ''://'' @ proxyRequest
             else if delimiter = 0 then best @ proxyRequest
             else if delimiter = 1 then
               (if charAt proxyRequest 0 = ''*'' then best @ substr proxyRequest 1 else proxyRequest)
             else proxyRequest)
      in case query serverURLInfo of
           Some q \<Rightarrow>
             if q \<noteq> [] then withProtocol @ ''?'' @ q
             else if rp_query urlRequestedParts \<noteq> [] then withProtocol @ ''?'' @ rp_query urlRequestedParts
             else withProtocol
         | None \<Rightarrow>
             if rp_query urlRequestedParts \<noteq> [] then withProtocol @ ''?'' @ rp_query urlRequestedParts
             else withProtocol)"

text \<open>
  \<open>buildFullURLFromParts(urlParts)\<close>, called on a \<open>parsedHostRedirect\<close>, whose protocol,
  host name, port and path are strings. The function has one parameter: a second
  argument passed to it is not read.
\<close>

definition buildFullURLFromParts :: "urlFlexParser \<Rightarrow> urlParts \<Rightarrow> jsError + string" where
  "buildFullURLFromParts parser parts =
     (case pathname parts of
        None \<Rightarrow> Inl (TypeError ''trim'')
      | Some pn \<Rightarrow>
          Inr ((case protocol parts of
                  None \<Rightarrow> ''null''
                | Some p \<Rightarrow> if p = ''*'' then (if ufp_useHTTPS parser then ''https'' else ''http'') else p)
               @ ''://''
               @ (case hostname parts of None \<Rightarrow> ''null'' | Some h \<Rightarrow> h)
               @ (case port parts of
                    None \<Rightarrow> '':null''
                  | Some p \<Rightarrow> if p \<noteq> ''*'' \<and> \<not> (isDecimal p \<and> digitsValue p = 80) then '':'' @ p else [])
               @ (if pn = ''*'' \<or> length (trim pn) = 0 then ''/'' else pn)
               @ (case query parts of
                    None \<Rightarrow> []
                  | Some q \<Rightarrow> if length q > 0 then (if charAt q 0 = ''?'' then q else ''?'' @ q) else [])))"

section \<open>proxy.js: the request dispatcher\<close>

text \<open>
  The variables of proxy.js a request reads and writes. \<open>rateMeter\<close> is \<open>None\<close> while
  the variable is \<open>null\<close>, and otherwise holds the meter's \<open>dbConnection\<close>;
  \<open>proxyServer\<close> tells whether that variable holds a proxy server.
\<close>

record serverState =
  attemptedRequests :: nat
  validProcessedRequests :: nat
  errorProcessedRequests :: nat
  rateMeter :: "database option option"
  proxyServer :: bool

text \<open>
  What a request ends with: a JSON document with its status, the request handed to the
  proxy server with its target and its \<open>Host\<close> header, the echo, the status page, a
  static file, or nothing written to the response at all. A \<open>failure\<close> in place of a
  reply is an exception nothing catches: no reply is written by the dispatcher, and the
  handler of \<open>uncaughtException\<close> ends the process.
\<close>

datatype json = JString string | JNumber int | JObject "(string \<times> json) list"

datatype reply =
    SendJSON nat json
  | ProxyWeb string "string option"
  | Echo
  | StatusPage
  | ServeStatic
  | Unanswered

definition proxyVersion :: string where
  "proxyVersion = ''0.1.5''"

definition pingDocument :: "string \<Rightarrow> json" where
  "pingDocument referrer =
     JObject [(''Proxy Version'', JString proxyVersion), (''Configuration File'', JString ''OK''),
              (''Log File'', JString ''OK''), (''referrer'', JString referrer)]"

definition sendPingResponse :: "string \<Rightarrow> serverState \<Rightarrow> (failure + reply) \<times> serverState" where
  "sendPingResponse referrer st =
     (Inr (SendJSON 200 (pingDocument referrer)),
      st\<lparr>validProcessedRequests := validProcessedRequests st + 1\<rparr>)"

definition errorDocument :: "string \<Rightarrow> nat \<Rightarrow> string \<Rightarrow> json" where
  "errorDocument urlRequested errorCode errorMessage =
     JObject [(''error'', JObject [(''code'', JNumber (int errorCode)), (''details'', JString errorMessage),
                                   (''message'', JString errorMessage)]),
              (''request'', JString urlRequested)]"

definition sendErrorResponse ::
  "string \<Rightarrow> nat \<Rightarrow> string \<Rightarrow> serverState \<Rightarrow> (failure + reply) \<times> serverState" where
  "sendErrorResponse urlRequested errorCode errorMessage st =
     (Inr (SendJSON errorCode (errorDocument urlRequested errorCode errorMessage)),
      st\<lparr>errorProcessedRequests := errorProcessedRequests st + 1\<rparr>)"

definition isValidURLRequest :: "configuration \<Rightarrow> string \<Rightarrow> bool" where
  "isValidURLRequest cfg uri =
     (mustMatch cfg \<and> list_ex (\<lambda>listen. toLowerCase uri = toLowerCase listen) (listenURI cfg))"

fun stripSlashes :: "string \<Rightarrow> string" where
  "stripSlashes (c # d # rest) = (if c = CHR ''/'' then stripSlashes (d # rest) else c # d # rest)"
| "stripSlashes s = s"

definition replaceFirst :: "string \<Rightarrow> string \<Rightarrow> string" where
  "replaceFirst s pattern =
     (let i = indexOf s pattern
      in if i < 0 then s else take (nat i) s @ drop (nat i + length pattern) s)"

fun firstMatchingServerUrl :: "urlParts \<Rightarrow> serverUrl list \<Rightarrow> jsError + serverUrl option" where
  "firstMatchingServerUrl parts [] = Inr None"
| "firstMatchingServerUrl parts (serverUrl # others) =
     (case parsedUrlPartsMatch parts serverUrl of
        Inl thrown \<Rightarrow> Inl thrown
      | Inr matches \<Rightarrow> if matches then Inr (Some serverUrl) else firstMatchingServerUrl parts others)"

definition getServerUrlInfo :: "node \<Rightarrow> configuration \<Rightarrow> requestParts \<Rightarrow> jsError + serverUrl option" where
  "getServerUrlInfo nodejs cfg urlRequestedParts =
     (if proxyPath urlRequestedParts = [] then Inr None
      else
        (let parsed = parseAndFixURLParts nodejs (proxyPath urlRequestedParts);
             requested = rp_protocol urlRequestedParts;
             p1 = parsed\<lparr>protocol := Some (if charAt requested (length requested - 1) = '':''
                                             then substr2 requested 0 (int (length requested) - 1)
                                             else requested)\<rparr>;
             p2 = (if path p1 = None \<or> path p1 = Some [] then p1\<lparr>path := Some (proxyPath urlRequestedParts)\<rparr>
                   else p1);
             p3 = (if hostname p2 = None \<or> hostname p2 = Some []
                   then (let h = stripSlashes (case path p2 of None \<Rightarrow> [] | Some p \<Rightarrow> p);
                             i = indexOf h ''/'';
                             newHost = (if i \<ge> 0 then substr2 h 0 i else h);
                             newPath = (if i \<ge> 0 then Some (substr h i) else path p2)
                         in p2\<lparr>hostname := Some newHost,
                               path := (case newPath of None \<Rightarrow> None
                                        | Some p \<Rightarrow> Some (replaceFirst p newHost))\<rparr>)
                   else p2);
             p4 = (if port p3 = None \<or> port p3 = Some [] then p3\<lparr>port := Some ''*''\<rparr> else p3);
             p5 = (if query p4 = None then p4\<lparr>query := Some (rp_query urlRequestedParts)\<rparr> else p4)
         in firstMatchingServerUrl p5 (serverUrls cfg)))"

text \<open>
  Modelled from the spec: \<open>ProjectUtilities.isEmptyObject\<close>, which
  \<open>processValidatedRequest\<close> calls and which is not among the sources. The
  specification does not describe it; it is read as its name says, an object is empty
  when it has no property of its own. What it answers decides only whether
  \<open>objectToQueryString\<close> is called, whose result is not used in the reply.
\<close>

definition isEmptyObject :: "jsObject \<Rightarrow> bool" where
  "isEmptyObject object = (object = [])"

text \<open>
  \<open>processValidatedRequest\<close> for a \<open>serverURLInfo\<close> that is not \<open>null\<close> (the dispatcher
  never passes \<open>null\<close>). The counters and times kept on \<open>serverURLInfo\<close> and the log
  are left out. \<open>parametersCombined\<close> is computed and then passed where no parameter
  receives it.
\<close>

definition processValidatedRequest ::
  "node \<Rightarrow> urlFlexParser \<Rightarrow> configuration \<Rightarrow> serverState \<Rightarrow> requestParts \<Rightarrow> 'a serverUrl_scheme
   \<Rightarrow> string \<Rightarrow> request \<Rightarrow> (failure + reply) \<times> serverState" where
  "processValidatedRequest nodejs parser cfg st urlRequestedParts serverURLInfo referrer req =
     (if proxyServer st then
        (case requestParameters req urlRequestedParts serverURLInfo of
           Inl failed \<Rightarrow> (Inl failed, st)
         | Inr parameters \<Rightarrow>
             (case (if \<not> isEmptyObject parameters then objectToQueryString parameters else Inr []) of
                Inl failed \<Rightarrow> (Inl failed, st)
              | Inr parametersCombined \<Rightarrow>
                  (case (if isHostRedirect serverURLInfo then
                           (case parsedHostRedirect serverURLInfo of
                              None \<Rightarrow> Inl (TypeError ''hostname'')
                            | Some redirect \<Rightarrow>
                                (case buildFullURLFromParts parser redirect of
                                   Inl thrown \<Rightarrow> Inl thrown
                                 | Inr proxyRequest \<Rightarrow> Inr (hostname redirect, proxyRequest)))
                         else Inr (hostname serverURLInfo,
                                   buildURLFromReferrerRequestAndInfo nodejs parser referrer
                                     urlRequestedParts serverURLInfo)) of
                     Inl thrown \<Rightarrow> (Inl (Thrown thrown), st)
                   | Inr (hostHeader, proxyRequest) \<Rightarrow>
                       if (req_method req = ''POST'' \<or> req_method req = ''PUT'')
                          \<and> req_headers req ''Content-Type'' = None
                       then (Inl (Thrown (TypeError ''indexOf'')), st)
                       else (Inr (ProxyWeb proxyRequest hostHeader),
                             st\<lparr>validProcessedRequests := validProcessedRequests st + 1\<rparr>))))
      else sendErrorResponse (proxyPath urlRequestedParts) 500
             (getStringTableEntry cfg ''Internal error'' []) st)"

definition isTruthy :: "meterAnswer \<Rightarrow> bool" where
  "isTruthy answer = (case answer of IsOK b \<Rightarrow> b | ErrorObject e \<Rightarrow> True)"

text \<open>
  \<open>checkRateMeterThenProcessValidatedRequest\<close>, with the two functions given to
  \<open>then\<close> run on the settled promise. A promise that never settles runs neither.
\<close>

definition checkRateMeterThenProcessValidatedRequest ::
  "node \<Rightarrow> urlFlexParser \<Rightarrow> configuration \<Rightarrow> rat \<Rightarrow> serverState \<Rightarrow> string \<Rightarrow> requestParts
   \<Rightarrow> 'a serverUrl_scheme \<Rightarrow> request \<Rightarrow> (failure + reply) \<times> serverState" where
  "checkRateMeterThenProcessValidatedRequest nodejs parser cfg now st referrer parts serverURLInfo req =
     (case rateMeter st of
        None \<Rightarrow> (Inr Unanswered, st)
      | Some dbConnection \<Rightarrow>
          (case isUnderMeterCap dbConnection now referrer serverURLInfo of
             (settled, dbConnection') \<Rightarrow>
               (let st' = st\<lparr>rateMeter := Some dbConnection'\<rparr>
                in case settled of
                     Resolved isUnderCap \<Rightarrow>
                       if isTruthy isUnderCap
                       then processValidatedRequest nodejs parser cfg st' parts serverURLInfo referrer req
                       else sendErrorResponse (req_url req) 429
                              (getStringTableEntry cfg ''Metered requests exceeded'' []) st'
                   | Rejected error \<Rightarrow>
                       sendErrorResponse (req_url req) 420
                         (getStringTableEntry cfg ''Metered resource status failed'' []) st'
                   | Uncaught thrown \<Rightarrow> (Inl (Thrown thrown), st'))))"

definition proxyServeFile ::
  "node \<Rightarrow> configuration \<Rightarrow> serverState \<Rightarrow> request \<Rightarrow> (failure + reply) \<times> serverState" where
  "proxyServeFile nodejs cfg st req =
     (if req_method req = ''GET'' then
        (if nu_pathname (url_parse nodejs (req_url req)) = Some ''/''
         then sendErrorResponse (req_url req) 404
                (getStringTableEntry cfg ''Resource not found'' [(''url'', ''/'')]) st
         else if staticFilePath cfg \<noteq> None then (Inr ServeStatic, st)
         else (Inr Unanswered, st))
      else sendErrorResponse (req_url req) 405 ''Method not supported.'' st)"

text \<open>
  The referrer \<open>processRequest\<close> validates: the \<open>referer\<close> header in lower case and
  trimmed, or \<open>*\<close> when the request has none or an empty one.
\<close>

definition requestReferrer :: "request \<Rightarrow> string" where
  "requestReferrer req =
     (case req_headers req ''referer'' of
        None \<Rightarrow> ''*''
      | Some r \<Rightarrow> if length r < 1 then ''*'' else trim (toLowerCase r))"

definition processRequest ::
  "node \<Rightarrow> urlFlexParser \<Rightarrow> configuration \<Rightarrow> rat \<Rightarrow> serverState \<Rightarrow> request
   \<Rightarrow> (failure + reply) \<times> serverState" where
  "processRequest nodejs parser cfg now st req =
     (case parseURLRequest nodejs (req_url req) (listenURI cfg) of
        Inl thrown \<Rightarrow> (Inl (Thrown thrown), st)
      | Inr parts \<Rightarrow>
          (let st1 = st\<lparr>attemptedRequests := attemptedRequests st + 1\<rparr>
           in case validatedReferrerFromReferrer nodejs parser (Some (requestReferrer req))
                     (allowedReferrers cfg) of
                Inl thrown \<Rightarrow> (Inl (Thrown thrown), st1)
              | Inr None \<Rightarrow>
                  sendErrorResponse (req_url req) 403
                    (getStringTableEntry cfg ''Referrer not allowed'' [(''referrer'', ''null'')]) st1
              | Inr (Some referrer) \<Rightarrow>
                  if listenPath parts = localPingURL cfg then sendPingResponse referrer st1
                  else if Some (proxyPath parts) = localEchoURL cfg then (Inr Echo, st1)
                  else if listenPath parts = localStatusURL cfg then (Inr StatusPage, st1)
                  else if isValidURLRequest cfg (listenPath parts) then
                    (case getServerUrlInfo nodejs cfg parts of
                       Inl thrown \<Rightarrow> (Inl (Thrown thrown), st1)
                     | Inr (Some serverURLInfo) \<Rightarrow>
                         if useRateMeter serverURLInfo
                         then checkRateMeterThenProcessValidatedRequest nodejs parser cfg now st1
                                referrer parts serverURLInfo req
                         else processValidatedRequest nodejs parser cfg st1 parts serverURLInfo referrer req
                     | Inr None \<Rightarrow>
                         if \<not> mustMatch cfg then
                           (let parsed = parseAndFixURLParts nodejs (listenPath parts)
                            in processValidatedRequest nodejs parser cfg st1 parts
                                 \<lparr>protocol = Some (rp_protocol parts), hostname = hostname parsed,
                                  port = port parsed, pathname = None, path = path parsed, query = None,
                                  host = None, matchAll = None,
                                  url = (case hostname parsed of None \<Rightarrow> ''null'' | Some h \<Rightarrow> h)
                                        @ (case path parsed of None \<Rightarrow> ''null'' | Some p \<Rightarrow> p),
                                  rateLimit = Finite 0, rateLimitPeriod = Finite 0, useRateMeter = False,
                                  rate = Finite 0, ratePeriodSeconds = Finite 0, accessToken = None,
                                  token = None,
                                  mayRequireToken = False, isHostRedirect = False,
                                  parsedHostRedirect = None\<rparr>
                                 referrer req)
                         else sendErrorResponse (req_url req) 404
                                (getStringTableEntry cfg ''Resource not found'' [(''url'', req_url req)]) st1)
                  else proxyServeFile nodejs cfg st1 req))"

section \<open>ProjectUtilities: finding a token in a string\<close>

text \<open>
  \<open>source.search(pattern)\<close>: the index of the leftmost position at which the pattern
  matches, or \<open>-1\<close>. The pattern is given by the test whether it matches at the head of
  a string.
\<close>

fun searchFrom :: "(string \<Rightarrow> bool) \<Rightarrow> string \<Rightarrow> nat \<Rightarrow> int" where
  "searchFrom matchesAt [] i = (if matchesAt [] then int i else - 1)"
| "searchFrom matchesAt (c # cs) i =
     (if matchesAt (c # cs) then int i else searchFrom matchesAt cs (Suc i))"

definition search :: "string \<Rightarrow> (string \<Rightarrow> bool) \<Rightarrow> int" where
  "search source matchesAt = searchFrom matchesAt source 0"

text \<open>
  The two patterns of \<open>findTokenInString\<close>, for a token without characters that are
  special in a regular expression (every caller passes \<open>token\<close>): \<open>(\?|&|\/|)token=\<close>,
  whose group may also match nothing, and \<open>"token":\<close>.
\<close>

definition matchesQueryToken :: "string \<Rightarrow> string \<Rightarrow> bool" where
  "matchesQueryToken tokenName rest =
     ((case rest of
         [] \<Rightarrow> False
       | c # cs \<Rightarrow> c \<in> set ''?&/'' \<and> prefix (tokenName @ ''='') cs)
      \<or> prefix (tokenName @ ''='') rest)"

definition matchesJsonToken :: "string \<Rightarrow> string \<Rightarrow> bool" where
  "matchesJsonToken tokenName rest = prefix ([CHR 0x22] @ tokenName @ [CHR 0x22] @ '':'') rest"

text \<open>
  \<open>value.match('"([^"]*)"')\<close>: the group of the first quoted string, or \<open>None\<close> for
  \<open>null\<close> when the string has no two quotes.
\<close>

definition matchQuoted :: "string \<Rightarrow> string option" where
  "matchQuoted s =
     (let fromOpening = dropWhile (\<lambda>c. c \<noteq> CHR 0x22) s
      in if fromOpening = [] then None
         else if CHR 0x22 \<in> set (drop 1 fromOpening)
         then Some (takeWhile (\<lambda>c. c \<noteq> CHR 0x22) (drop 1 fromOpening))
         else None)"

definition findTokenInString :: "string \<Rightarrow> string \<Rightarrow> string" where
  "findTokenInString source tokenName =
     (if length (trim source) > 0 \<and> length (trim tokenName) > 0 then
        (let found = search source (matchesQueryToken tokenName)
         in if found \<ge> 0 then
              (let v = substr source found;
                   equals = indexOf v ''=''
               in if equals \<ge> 0 then
                    (let afterEquals = substr v (equals + 1);
                         ampersand = indexOf afterEquals ''&''
                     in if ampersand > 0 then substr2 afterEquals 0 ampersand else afterEquals)
                  else v)
            else
              (let found2 = search source (matchesJsonToken tokenName)
               in if found2 \<ge> 0 then
                    (case matchQuoted (substr source (found2 + int (length tokenName) + 3)) of
                       Some quoted \<Rightarrow> quoted
                     | None \<Rightarrow> [])
                  else []))
      else [])"

section \<open>proxy.js: inspection of the upstream's response\<close>

text \<open>
  What \<open>checkServerResponseForMissingToken\<close> can hand to its callback: the text of the
  buffered body, or what a zlib function returned. Neither a string nor a Buffer has a
  property \<open>error\<close>. The zlib functions are given the BufferHelper itself; what they do
  with it is a parameter of the model.
\<close>

datatype bodyValue = TextBody string | BufferBody string

record zlib =
  deflateSync :: "string list \<Rightarrow> jsError + bodyValue"
  gunzipSync :: "string list \<Rightarrow> jsError + bodyValue"

definition isTruthyBody :: "bodyValue \<Rightarrow> bool" where
  "isTruthyBody body = (case body of TextBody s \<Rightarrow> s \<noteq> [] | BufferBody b \<Rightarrow> True)"

definition errorProperty :: "bodyValue \<Rightarrow> json option" where
  "errorProperty body = (case body of TextBody s \<Rightarrow> None | BufferBody b \<Rightarrow> None)"

definition codeProperty :: "json \<Rightarrow> int option" where
  "codeProperty error =
     (case error of
        JObject properties \<Rightarrow>
          (case map_of properties ''code'' of Some (JNumber n) \<Rightarrow> Some n | _ \<Rightarrow> None)
      | _ \<Rightarrow> None)"

text \<open>
  The callback \<open>proxyResponseRewrite\<close> passes: it reads \<open>body.error.code\<close>, and reading
  \<open>code\<close> of \<open>undefined\<close> throws a TypeError.
\<close>

definition checkForMissingToken :: "bodyValue \<Rightarrow> jsError + bool" where
  "checkForMissingToken body =
     (if isTruthyBody body then
        (case errorProperty body of
           None \<Rightarrow> Inl (TypeError ''Cannot read property code of undefined'')
         | Some error \<Rightarrow>
             Inr (codeProperty error = Some 403 \<or> codeProperty error = Some 498
                  \<or> codeProperty error = Some 499))
      else Inr False)"

text \<open>
  What the client is sent once the upstream's response has ended: the calls of the
  original \<open>write\<close> and \<open>end\<close> of \<open>proxyResponse\<close>, in order.
\<close>

datatype responseCall = ResponseWrite string | ResponseEnd

text \<open>
  The replaced \<open>proxyResponse.end\<close>, run on the chunks the replaced \<open>write\<close> has
  collected. \<open>headers\<close> is \<open>proxyResponse._headers\<close>, \<open>None\<close> when the response has no
  such property. Whatever is thrown inside the \<open>try\<close> is caught and printed, and
  \<open>tokenIsMissing\<close> keeps the value it had.
\<close>

definition inspectBody ::
  "zlib \<Rightarrow> (string \<Rightarrow> string option) option \<Rightarrow> string list \<Rightarrow> jsError + bool" where
  "inspectBody z headers chunks =
     (case headers of
        None \<Rightarrow> Inl (TypeError ''Cannot read property content-encoding of undefined'')
      | Some h \<Rightarrow>
          (let encoding = toLowerCase (case h ''content-encoding'' of
                                         None \<Rightarrow> ''utf8''
                                       | Some e \<Rightarrow> if e = [] then ''utf8'' else e)
           in if length (concat chunks) > 0 then
                (case (if encoding = ''deflate'' then deflateSync z chunks
                       else if encoding = ''gzip'' then gunzipSync z chunks
                       else Inr (TextBody (concat chunks))) of
                   Inl thrown \<Rightarrow> Inl thrown
                 | Inr decodedBody \<Rightarrow> checkForMissingToken decodedBody)
              else Inr False))"

definition proxyResponseEnd ::
  "zlib \<Rightarrow> configuration \<Rightarrow> (string \<Rightarrow> string option) option \<Rightarrow> string list \<Rightarrow> responseCall list" where
  "proxyResponseEnd z cfg headers chunks =
     (let body = (case headers of None \<Rightarrow> [] | Some h \<Rightarrow> concat chunks);
          tokenIsMissing = (case inspectBody z headers chunks of Inl caught \<Rightarrow> False | Inr t \<Rightarrow> t)
      in if \<not> tokenIsMissing then [ResponseWrite body, ResponseEnd]
         else [ResponseWrite (getStringTableEntry cfg ''Could not generate a new token'' []), ResponseEnd])"

text \<open>
  \<open>proxyResponseRewrite\<close>: the content type of the upstream's response is rewritten, and
  for a serverUrl that may require a token the body is held back and inspected; any
  other response is piped to the client chunk by chunk.
\<close>

definition rewriteContentType :: "string \<Rightarrow> string" where
  "rewriteContentType contentType =
     (let i = indexOf contentType ''application/vnd.ogc.wms_xml''
      in if i < 0 then contentType
         else take (nat i) contentType @ ''text/xml''
              @ drop (nat i + length ''application/vnd.ogc.wms_xml'') contentType)"

definition proxyResponseRewrite ::
  "zlib \<Rightarrow> configuration \<Rightarrow> serverUrl option \<Rightarrow> (string \<Rightarrow> string option) option \<Rightarrow> string list
   \<Rightarrow> responseCall list" where
  "proxyResponseRewrite z cfg serverUrlInfo headers chunks =
     (if (case serverUrlInfo of None \<Rightarrow> False | Some info \<Rightarrow> mayRequireToken info)
      then proxyResponseEnd z cfg headers chunks
      else map ResponseWrite chunks @ [ResponseEnd])"

section \<open>Example inputs\<close>

text \<open>
  A Node whose \<open>url.parse\<close> answers as Node's does on a string that has no scheme, no
  \<open>//\<close>, no \<open>?\<close> and no \<open>#\<close> (the whole string is the path name), and whose
  \<open>decodeURI\<close> answers as Node's does on a string without \<open>%\<close>.
\<close>

definition plainPathNode :: node where
  "plainPathNode =
     \<lparr>url_parse = (\<lambda>u. \<lparr>nu_protocol = None, nu_hostname = None, nu_port = None,
                           nu_pathname = (if u = [] then None else Some u), nu_query = None\<rparr>),
      decodeURI = Inr\<rparr>"

definition exampleConfigured :: serverUrl where
  "exampleConfigured =
     \<lparr>protocol = Some ''http'', hostname = Some ''tiles.example.com'', port = Some ''*'',
      pathname = Some ''/arcgis'', path = Some ''/arcgis'', query = None,
      host = Some ''tiles.example.com'', matchAll = Some True,
      url = ''http://tiles.example.com/arcgis'', rateLimit = Finite 0, rateLimitPeriod = Finite 0,
      useRateMeter = False, rate = Finite 0, ratePeriodSeconds = Finite 0, accessToken = None,
      token = None,
      mayRequireToken = False, isHostRedirect = False, parsedHostRedirect = None\<rparr>"

text \<open>The same serverUrl with \<open>rateLimit="3"\<close> and \<open>rateLimitPeriod="1"\<close>: three a minute.\<close>

definition exampleServerUrl :: serverUrl where
  "exampleServerUrl = postParseRateLimit (Some (Finite 3)) (Some (Finite 1)) exampleConfigured"


text \<open>A row that has admitted one request at time 0; its rate is the double nearest 0.05.\<close>

definition exampleRow :: ipsRow where
  "exampleRow =
     \<lparr>ips_id = 1, ips_url = ''http://tiles.example.com/arcgis'', ips_referrer = ''*'',
      ips_count = 1, ips_rate = 3602879701896397 / 72057594037927936, ips_time = 0, ips_total = 1,
      ips_rejected = 0\<rparr>"

definition exampleDatabase :: database where
  "exampleDatabase = \<lparr>ips = [exampleRow], selectError = None, updateError = None\<rparr>"

definition exampleConfiguration :: configuration where
  "exampleConfiguration =
     \<lparr>mustMatch = True, localPingURL = ''/ping'', localStatusURL = ''/status'', localEchoURL = None,
      staticFilePath = None, listenURI = [''/proxy''],
      allowedReferrers = [\<lparr>ar_protocol = Some ''*'', ar_hostname = Some ''*'', ar_path = Some ''*'',
                            ar_referrer = Some ''*''\<rparr>],
      allowAnyReferrer = True, matchAllReferrer = True, useHTTPS = False,
      serverUrls = [exampleServerUrl], getStringTableEntry = (\<lambda>key tokens. key)\<rparr>"

definition exampleState :: serverState where
  "exampleState =
     \<lparr>attemptedRequests = 0, validProcessedRequests = 0, errorProcessedRequests = 0,
      rateMeter = Some (Some exampleDatabase), proxyServer = True\<rparr>"

definition exampleRequest :: request where
  "exampleRequest =
     \<lparr>req_url = ''/proxy/http/tiles.example.com/arcgis'', req_method = ''GET'',
      req_headers = Map.empty, req_query = None\<rparr>"

text \<open>The example database when sqlite answers the SELECT with an error.\<close>

definition exampleBusyDatabase :: database where
  "exampleBusyDatabase = exampleDatabase\<lparr>selectError := Some (Error ''SQLITE_BUSY: database is locked'')\<rparr>"

text \<open>
  A server that allows one referrer only, \<open>https://app.example.org\<close>, and a ping sent
  with another one in its \<open>Referer\<close> header.
\<close>

text \<open>The example database when sqlite refuses every UPDATE.\<close>

definition exampleReadOnlyDatabase :: database where
  "exampleReadOnlyDatabase =
     exampleDatabase\<lparr>updateError := Some (Error ''SQLITE_READONLY: attempt to write a readonly database'')\<rparr>"

definition strictConfiguration :: configuration where
  "strictConfiguration =
     exampleConfiguration\<lparr>allowAnyReferrer := False,
       allowedReferrers := [\<lparr>ar_protocol = Some ''https'', ar_hostname = Some ''app.example.org'',
                             ar_path = Some ''*'', ar_referrer = Some ''https://app.example.org/*''\<rparr>]\<rparr>"

definition pingRequest :: request where
  "pingRequest =
     \<lparr>req_url = ''/ping'', req_method = ''GET'',
      req_headers = [''referer'' \<mapsto> ''evil.example.net/''], req_query = None\<rparr>"

text \<open>
  The body \<open>{"error":{"code":498,"message":"Invalid token.","details":[]}}\<close> of an
  upstream that refuses the token.
\<close>

definition invalidTokenBody :: string where
  "invalidTokenBody =
     ''{'' @ [CHR 0x22] @ ''error'' @ [CHR 0x22] @ '':{'' @ [CHR 0x22] @ ''code'' @ [CHR 0x22] @ '':498,''
     @ [CHR 0x22] @ ''message'' @ [CHR 0x22] @ '':'' @ [CHR 0x22] @ ''Invalid token.'' @ [CHR 0x22] @ '',''
     @ [CHR 0x22] @ ''details'' @ [CHR 0x22] @ '':[]}}''"

text \<open>zlib as Node has it for an argument that is neither a string nor a Buffer.\<close>

definition refusingZlib :: zlib where
  "refusingZlib =
     \<lparr>deflateSync = (\<lambda>chunks. Inl (TypeError ''Not a string or buffer'')),
      gunzipSync = (\<lambda>chunks. Inl (TypeError ''Not a string or buffer''))\<rparr>"

text \<open>
  The serverUrl of the entry \<open>url="*.example.com/arcgis"\<close>, in which \<open>url.parse\<close>
  finds neither protocol nor host, so that \<open>parseAndFixURLParts\<close> takes the host name
  from the path; a configuration with that serverUrl alone; and a request for the host
  \<open>www.example.com\<close>.
\<close>

definition wildcardServerUrl :: serverUrl where
  "wildcardServerUrl =
     exampleConfigured\<lparr>protocol := Some ''*'', hostname := Some ''*.example.com'',
       host := Some ''*.example.com'', url := ''*.example.com/arcgis''\<rparr>"

definition wildcardConfiguration :: configuration where
  "wildcardConfiguration = exampleConfiguration\<lparr>serverUrls := [wildcardServerUrl]\<rparr>"

definition wildcardRequest :: request where
  "wildcardRequest = exampleRequest\<lparr>req_url := ''/proxy/http/www.example.com/arcgis''\<rparr>"

text \<open>
  A serverUrl with the static access token \<open>T\<close>, a configuration with that serverUrl
  alone, and a request for it with the query string \<open>f=json\<close>.
\<close>

definition tokenServerUrl :: serverUrl where
  "tokenServerUrl = exampleConfigured\<lparr>accessToken := Some ''T''\<rparr>"

definition tokenConfiguration :: configuration where
  "tokenConfiguration = exampleConfiguration\<lparr>serverUrls := [tokenServerUrl]\<rparr>"

definition tokenlessRequest :: request where
  "tokenlessRequest = exampleRequest\<lparr>req_url := ''/proxy/http/tiles.example.com/arcgis?f=json''\<rparr>"

text \<open>
  The serverUrl of the entry \<open>url="http://tiles.example.com/arcgis?f=json"\<close>, whose
  \<open>url\<close> stays as configured and whose \<open>query\<close> is the query \<open>url.parse\<close> finds in
  it; a configuration with that serverUrl alone; and a request for it with the query
  string \<open>x=1\<close>.
\<close>

definition queryServerUrl :: serverUrl where
  "queryServerUrl =
     exampleConfigured\<lparr>query := Some ''f=json'', url := ''http://tiles.example.com/arcgis?f=json''\<rparr>"

definition queryConfiguration :: configuration where
  "queryConfiguration = exampleConfiguration\<lparr>serverUrls := [queryServerUrl]\<rparr>"

definition queryRequest :: request where
  "queryRequest = exampleRequest\<lparr>req_url := ''/proxy/http/tiles.example.com/arcgis?x=1''\<rparr>"

text \<open>
  The source \<open>mytoken=5;{"token":"X"}\<close>: the payload \<open>{"token":"X"}\<close> after bytes
  that are not a \<open>token\<close> parameter, and the key \<open>"token":\<close> as the JSON form has it.
\<close>

definition quotedTokenKey :: string where
  "quotedTokenKey = [CHR 0x22] @ ''token'' @ [CHR 0x22] @ '':''"

definition mixedTokenSource :: string where
  "mixedTokenSource = ''mytoken=5;{'' @ quotedTokenKey @ [CHR 0x22] @ ''X'' @ [CHR 0x22] @ ''}''"


text \<open>
  The parts of a request with a given query string, and a serverUrl configured with a
  given query.
\<close>

definition partsWithQuery :: "string \<Rightarrow> requestParts" where
  "partsWithQuery q =
     \<lparr>listenPath = ''/proxy'', proxyPath = ''/tiles.example.com/arcgis'', rp_query = q,
      rp_protocol = ''http''\<rparr>"


section \<open>Host matching\<close>

lemma testDomainsMatch_loop_iff:
  "length dp = length rp \<Longrightarrow> i \<le> length dp \<Longrightarrow>
   testDomainsMatch_loop dp rp i = list_all2 (\<lambda>p r. p = ''*'' \<or> p = r) (drop i dp) (drop i rp)"
proof (induction dp rp i rule: testDomainsMatch_loop.induct)
  case (1 dp rp i)
  show ?case
  proof (cases "i < length dp")
    case True
    then have d: "drop i dp = dp ! i # drop (Suc i) dp" "drop i rp = rp ! i # drop (Suc i) rp"
      using "1.prems" by (simp_all add: Cons_nth_drop_Suc)
    show ?thesis
    proof (cases "dp ! i \<noteq> ''*'' \<and> dp ! i \<noteq> rp ! i")
      case True
      then show ?thesis using \<open>i < length dp\<close> d
        by (subst testDomainsMatch_loop.simps) simp
    next
      case False
      then have "testDomainsMatch_loop dp rp i = testDomainsMatch_loop dp rp (Suc i)"
        using \<open>i < length dp\<close> by (subst testDomainsMatch_loop.simps) auto
      also have "\<dots> = list_all2 (\<lambda>p r. p = ''*'' \<or> p = r) (drop (Suc i) dp) (drop (Suc i) rp)"
        using "1.IH" [OF \<open>i < length dp\<close> False] "1.prems" \<open>i < length dp\<close> by simp
      finally show ?thesis using d False by auto
    qed
  next
    case False
    then show ?thesis using "1.prems"
      by (subst testDomainsMatch_loop.simps) simp
  qed
qed

lemma testDomainsMatch_iff:
  "testDomainsMatch p h =
     list_all2 (\<lambda>a b. a = ''*'' \<or> a = b) (split (CHR ''.'') p) (split (CHR ''.'') h)"
  unfolding testDomainsMatch_def Let_def
  using testDomainsMatch_loop_iff [of "split (CHR ''.'') p" "split (CHR ''.'') h" 0]
  by (auto dest: list_all2_lengthD)

lemma toLowerChar_eq_dot: "toLowerChar c = CHR ''.'' \<longleftrightarrow> c = CHR ''.''"
  by (cases c) (auto simp: toLowerChar_def Let_def)

lemma toLowerChar_eq_star: "toLowerChar c = CHR ''*'' \<longleftrightarrow> c = CHR ''*''"
  by (cases c) (auto simp: toLowerChar_def Let_def)

lemma toLowerCase_eq_star: "toLowerCase p = ''*'' \<longleftrightarrow> p = ''*''"
  by (cases p) (auto simp: toLowerCase_def toLowerChar_eq_star)

lemma split_toLowerCase:
  "split (CHR ''.'') (toLowerCase s) = map toLowerCase (split (CHR ''.'') s)"
proof (induction s)
  case Nil
  show ?case by (simp add: toLowerCase_def)
next
  case (Cons c cs)
  then show ?case
    by (cases "split (CHR ''.'') cs") (auto simp: toLowerCase_def toLowerChar_eq_dot)
qed

text \<open>
  On host names put in lower case, \<open>testDomainsMatch\<close> with the pattern as its first
  argument is the specification's host match.
\<close>

lemma testDomainsMatch_lowered:
  "testDomainsMatch (toLowerCase p) (toLowerCase h) = hostMatchSpec p h"
  by (simp add: testDomainsMatch_iff hostMatchSpec_def split_toLowerCase list_all2_map1
      list_all2_map2 toLowerCase_eq_star)

text \<open>A match of two URL parts objects needs the host match of their host names.\<close>

lemma parsedUrlPartsMatch_hosts:
  "parsedUrlPartsMatch source target = Inr True \<Longrightarrow>
   \<exists>sourceHost targetHost. hostname source = Some sourceHost \<and> hostname target = Some targetHost
     \<and> testDomainsMatch sourceHost targetHost"
  by (auto simp: parsedUrlPartsMatch_def split: option.splits if_splits)

section \<open>JavaScript numbers\<close>

text \<open>\<open>binade\<close> is the exponent of the power of two at or below a positive rational.\<close>

lemma binade_bounds:
  assumes "0 < x"
  shows "2 powi binade x \<le> x \<and> x < 2 powi (binade x + 1)"
proof -
  obtain p q where pq: "quotient_of x = (p, q)" by (cases "quotient_of x")
  then have q: "0 < q" and x: "x = of_int p / of_int q"
    using quotient_of_denom_pos quotient_of_div by auto
  have p: "0 < p" using assms q x by (simp add: zero_less_divide_iff)
  let ?d = "bitlen p - bitlen q"
  have bp: "2 ^ nat (bitlen p - 1) \<le> p" "p < 2 ^ nat (bitlen p)"
    using bitlen_bounds [OF p] by auto
  have bq: "2 ^ nat (bitlen q - 1) \<le> q" "q < 2 ^ nat (bitlen q)"
    using bitlen_bounds [OF q] by auto
  have lp: "0 < bitlen p"
  proof (rule ccontr)
    assume "\<not> 0 < bitlen p"
    then have "nat (bitlen p) = 0" by simp
    with bp(2) p show False by simp
  qed
  have lq: "0 < bitlen q"
  proof (rule ccontr)
    assume "\<not> 0 < bitlen q"
    then have "nat (bitlen q) = 0" by simp
    with bq(2) q show False by simp
  qed
  have P1: "(2::rat) powi (bitlen p - 1) \<le> of_int p"
  proof -
    have "(2::rat) powi (bitlen p - 1) = of_int (2 ^ nat (bitlen p - 1))"
      using lp by (simp add: power_int_def)
    also have "\<dots> \<le> of_int p" using bp(1) by (simp only: of_int_le_iff)
    finally show ?thesis .
  qed
  have P2: "of_int p < (2::rat) powi (bitlen p)"
  proof -
    have "(2::rat) powi (bitlen p) = of_int (2 ^ nat (bitlen p))"
      using lp by (simp add: power_int_def)
    moreover have "(of_int p :: rat) < of_int (2 ^ nat (bitlen p))"
      using bp(2) by (simp only: of_int_less_iff)
    ultimately show ?thesis by simp
  qed
  have Q1: "(2::rat) powi (bitlen q - 1) \<le> of_int q"
  proof -
    have "(2::rat) powi (bitlen q - 1) = of_int (2 ^ nat (bitlen q - 1))"
      using lq by (simp add: power_int_def)
    also have "\<dots> \<le> of_int q" using bq(1) by (simp only: of_int_le_iff)
    finally show ?thesis .
  qed
  have Q2: "of_int q < (2::rat) powi (bitlen q)"
  proof -
    have "(2::rat) powi (bitlen q) = of_int (2 ^ nat (bitlen q))"
      using lq by (simp add: power_int_def)
    moreover have "(of_int q :: rat) < of_int (2 ^ nat (bitlen q))"
      using bq(2) by (simp only: of_int_less_iff)
    ultimately show ?thesis by simp
  qed
  have qpos: "(0::rat) < of_int q" using q by simp
  have upper: "x < 2 powi (?d + 1)"
  proof -
    have "x * 2 powi (bitlen q - 1) \<le> x * of_int q"
      using Q1 assms by (simp add: mult_left_mono)
    also have "\<dots> = of_int p" using x qpos by simp
    also have "\<dots> < 2 powi (bitlen p)" by (rule P2)
    also have "\<dots> = 2 powi (?d + 1) * 2 powi (bitlen q - 1)"
      by (simp add: power_int_add [symmetric])
    finally show ?thesis by (simp add: zero_less_power_int)
  qed
  have lower: "2 powi (?d - 1) < x"
  proof -
    have "(2::rat) powi (?d - 1) * of_int q < 2 powi (?d - 1) * 2 powi (bitlen q)"
      using Q2 by (simp add: zero_less_power_int)
    also have "\<dots> = 2 powi (bitlen p - 1)"
      by (simp add: power_int_add [symmetric])
    also have "\<dots> \<le> of_int p" by (rule P1)
    also have "\<dots> = x * of_int q" using x qpos by simp
    finally show ?thesis using qpos by simp
  qed
  show ?thesis
  proof (cases "2 powi ?d \<le> x")
    case True
    then have "binade x = ?d" by (simp add: binade_def pq)
    with True upper show ?thesis by simp
  next
    case False
    then have "binade x = ?d - 1" by (simp add: binade_def pq)
    with False lower show ?thesis by simp
  qed
qed

text \<open>\<open>roundHalfEven\<close> is within a half of its argument.\<close>

lemma roundHalfEven_near: "\<bar>of_int (roundHalfEven x) - x\<bar> \<le> 1 / 2"
proof -
  have "of_int \<lfloor>x\<rfloor> \<le> x" "x < of_int \<lfloor>x\<rfloor> + 1" by linarith+
  then show ?thesis
    by (auto simp: roundHalfEven_def Let_def abs_le_iff)
qed


section \<open>The admission step of the rate meter\<close>

text \<open>
  Three requests a minute: the rate is the double nearest 0.05, the window 20 seconds.
  One request every three minutes: the window is the double after 180,
  \<open>180.00000000000003\<close>.
\<close>

lemma example_rate:
  "numDiv (numDiv (Finite 3) (Finite 1)) (Finite 60) = Finite (3602879701896397 / 72057594037927936)"
  by code_simp

lemma example_window:
  "numDiv (Finite 1) (Finite (3602879701896397 / 72057594037927936)) = Finite 20"
  by code_simp



lemma exampleServerUrl_fields:
  "exampleServerUrl = exampleConfigured\<lparr>rateLimit := Finite 3, rateLimitPeriod := Finite 1,
     useRateMeter := True, rate := Finite (3602879701896397 / 72057594037927936),
     ratePeriodSeconds := Finite 20\<rparr>"
  by (simp add: exampleServerUrl_def postParseRateLimit_def example_rate example_window
      del: numDiv.simps)


lemma example_window_end: "numAdd (Finite 0) (Finite 20) = Finite 20"
  by code_simp





section \<open>The dispatcher and the rate meter\<close>

lemma example_parse:
  "parseURLRequest plainPathNode ''/proxy/http/tiles.example.com/arcgis'' [''/proxy''] =
     Inr \<lparr>listenPath = ''/proxy'', proxyPath = ''/tiles.example.com/arcgis'', rp_query = [],
          rp_protocol = ''http''\<rparr>"
  by (simp add: parseURLRequest_def plainPathNode_def cutAt_def indexOf_def substr_def substr2_def
      Let_def)

lemma example_parts:
  "parseAndFixURLParts plainPathNode ''/tiles.example.com/arcgis'' =
     \<lparr>protocol = Some ''*'', hostname = Some ''tiles.example.com'', port = Some ''*'',
      pathname = Some ''/arcgis'', path = Some ''/arcgis'', query = None,
      host = Some ''tiles.example.com'', matchAll = None\<rparr>"
  by (simp add: parseAndFixURLParts_def plainPathNode_def indexOf_def substr_def substr2_def Let_def)

lemma example_match:
  "getServerUrlInfo plainPathNode exampleConfiguration
     \<lparr>listenPath = ''/proxy'', proxyPath = ''/tiles.example.com/arcgis'', rp_query = [],
      rp_protocol = ''http''\<rparr> = Inr (Some exampleServerUrl)"
  by (simp add: getServerUrlInfo_def example_parts charAt_def Let_def exampleConfiguration_def
      parsedUrlPartsMatch_def testDomainsMatch_iff exampleServerUrl_fields exampleConfigured_def
      startsWith_def indexOf_def toLowerCase_def toLowerChar_def)

lemma example_valid: "isValidURLRequest exampleConfiguration ''/proxy''"
  by (simp add: isValidURLRequest_def exampleConfiguration_def)

lemma example_referrer:
  "validatedReferrerFromReferrer plainPathNode (setConfiguration exampleConfiguration) r
     (allowedReferrers exampleConfiguration) = Inr (Some ''*'')"
  by (simp add: validatedReferrerFromReferrer_def setConfiguration_def exampleConfiguration_def)

lemma rateMeter_processValidatedRequest:
  "rateMeter (snd (processValidatedRequest nodejs parser cfg st parts info referrer req)) = rateMeter st"
  by (simp add: processValidatedRequest_def sendErrorResponse_def
      split: sum.splits prod.splits option.splits)

lemma processRequest_metered:
  assumes "parseURLRequest nodejs (req_url req) (listenURI cfg) = Inr parts"
    and "validatedReferrerFromReferrer nodejs parser (Some (requestReferrer req)) (allowedReferrers cfg)
         = Inr (Some referrer)"
    and "listenPath parts \<noteq> localPingURL cfg"
    and "Some (proxyPath parts) \<noteq> localEchoURL cfg"
    and "listenPath parts \<noteq> localStatusURL cfg"
    and "isValidURLRequest cfg (listenPath parts)"
    and "getServerUrlInfo nodejs cfg parts = Inr (Some serverURLInfo)"
    and "useRateMeter serverURLInfo"
    and "rateMeter st = Some dbConnection"
  shows "fst (processRequest nodejs parser cfg now st req) =
     (case fst (isUnderMeterCap dbConnection now referrer serverURLInfo) of
        Resolved isUnderCap \<Rightarrow>
          if isTruthy isUnderCap
          then fst (processValidatedRequest nodejs parser cfg
                 (st\<lparr>attemptedRequests := attemptedRequests st + 1,
                     rateMeter := Some (snd (isUnderMeterCap dbConnection now referrer serverURLInfo))\<rparr>)
                 parts serverURLInfo referrer req)
          else Inr (SendJSON 429 (errorDocument (req_url req) 429
                 (getStringTableEntry cfg ''Metered requests exceeded'' [])))
      | Rejected error \<Rightarrow>
          Inr (SendJSON 420 (errorDocument (req_url req) 420
            (getStringTableEntry cfg ''Metered resource status failed'' [])))
      | Uncaught thrown \<Rightarrow> Inl (Thrown thrown))
   \<and> rateMeter (snd (processRequest nodejs parser cfg now st req))
       = Some (snd (isUnderMeterCap dbConnection now referrer serverURLInfo))"
  using assms
  by (simp add: processRequest_def checkRateMeterThenProcessValidatedRequest_def Let_def
      sendErrorResponse_def rateMeter_processValidatedRequest
      split: prod.splits promise.splits)


lemma processValidatedRequest_reply:
  "proxyServer st' = proxyServer st \<Longrightarrow>
   fst (processValidatedRequest nodejs parser cfg st' parts info referrer req)
     = fst (processValidatedRequest nodejs parser cfg st parts info referrer req)"
  by (auto simp: processValidatedRequest_def sendErrorResponse_def
      split: sum.splits prod.splits option.splits)

lemma isUnderMeterCap_settles:
  "fst (isUnderMeterCap dbConnection now referrer serverURL) =
     (case dbConnection of
        None \<Rightarrow> Rejected (Error ''Database connection was not open. Call start() first.'')
      | Some db \<Rightarrow>
          (case selectError db of
             Some error \<Rightarrow> Rejected error
           | None \<Rightarrow>
               (case find (\<lambda>r. ips_referrer r = referrer \<and> ips_url r = url serverURL) (ips db) of
                  None \<Rightarrow> Uncaught (ReferenceError ''url'')
                | Some row \<Rightarrow>
                    Resolved (IsOK (ips_count row = 0
                      \<or> numLe (numAdd (Finite (ips_time row)) (ratePeriodSeconds serverURL)) (Finite now)
                      \<or> numLt (Finite (of_int (ips_count row))) (rate serverURL))))))"
  by (simp add: isUnderMeterCap_def readIdentifier_def isUnderMeterCap_scope_def
      split: option.splits)

lemma example_forwarded:
  "proxyServer st \<Longrightarrow>
   fst (processValidatedRequest plainPathNode (setConfiguration exampleConfiguration) exampleConfiguration
          st \<lparr>listenPath = ''/proxy'', proxyPath = ''/tiles.example.com/arcgis'', rp_query = [],
               rp_protocol = ''http''\<rparr> exampleServerUrl ''*'' exampleRequest)
     = Inr (ProxyWeb ''http://tiles.example.com/arcgis'' (Some ''tiles.example.com''))"
  by (simp add: processValidatedRequest_def isEmptyObject_def requestParameters_def
      combineParameters_def configuredToken_def isPropertySet_def exampleServerUrl_fields
      exampleConfigured_def
      exampleRequest_def buildURLFromReferrerRequestAndInfo_def indexOf_def Let_def)

lemma example_denied:
  "isUnderMeterCap (Some exampleDatabase) 1 ''*'' exampleServerUrl =
     (Resolved (IsOK False), Some (exampleDatabase\<lparr>ips := [exampleRow\<lparr>ips_rejected := 1\<rparr>]\<rparr>))"
  by (simp add: isUnderMeterCap_def exampleServerUrl_fields exampleConfigured_def
      exampleDatabase_def exampleRow_def updateWhereId_def example_window_end
      del: numAdd.simps)

lemma example_busy:
  "isUnderMeterCap (Some exampleBusyDatabase) 1 ''*'' exampleServerUrl =
     (Rejected (Error ''SQLITE_BUSY: database is locked''), Some exampleBusyDatabase)"
  by (simp add: isUnderMeterCap_def exampleBusyDatabase_def)

lemma example_read_only:
  "isUnderMeterCap (Some exampleReadOnlyDatabase) 25 ''*'' exampleServerUrl =
     (Resolved (IsOK True), Some exampleReadOnlyDatabase)"
  by (simp add: isUnderMeterCap_def exampleServerUrl_fields exampleConfigured_def
      exampleReadOnlyDatabase_def exampleDatabase_def exampleRow_def updateWhereId_def
      example_window_end del: numAdd.simps)

text \<open>
  C6, as stated, fails: when sqlite refuses the meter's UPDATE, an error of the limiter
  itself, the client is sent no error document with status 420. The error is only
  logged, the table stays as it was and the request is forwarded.
\<close>

theorem meter_update_error_counterexample:
  "updateError exampleReadOnlyDatabase
     = Some (Error ''SQLITE_READONLY: attempt to write a readonly database'')
   \<and> fst (processRequest plainPathNode (setConfiguration exampleConfiguration) exampleConfiguration 25
          (exampleState\<lparr>rateMeter := Some (Some exampleReadOnlyDatabase)\<rparr>) exampleRequest)
     = Inr (ProxyWeb ''http://tiles.example.com/arcgis'' (Some ''tiles.example.com''))
   \<and> rateMeter (snd (processRequest plainPathNode (setConfiguration exampleConfiguration)
          exampleConfiguration 25
          (exampleState\<lparr>rateMeter := Some (Some exampleReadOnlyDatabase)\<rparr>) exampleRequest))
     = Some (Some exampleReadOnlyDatabase)"
proof -
  let ?parts = "\<lparr>listenPath = ''/proxy'', proxyPath = ''/tiles.example.com/arcgis'', rp_query = [],
                 rp_protocol = ''http''\<rparr>"
  have parse: "parseURLRequest plainPathNode (req_url exampleRequest) (listenURI exampleConfiguration)
      = Inr ?parts"
    using example_parse by (simp add: exampleRequest_def exampleConfiguration_def)
  have notPing: "listenPath ?parts \<noteq> localPingURL exampleConfiguration"
    and notEcho: "Some (proxyPath ?parts) \<noteq> localEchoURL exampleConfiguration"
    and notStatus: "listenPath ?parts \<noteq> localStatusURL exampleConfiguration"
    by (simp_all add: exampleConfiguration_def)
  have valid: "isValidURLRequest exampleConfiguration (listenPath ?parts)"
    using example_valid by simp
  have cap: "useRateMeter exampleServerUrl"
    by (simp add: exampleServerUrl_fields)
  have meter: "rateMeter (exampleState\<lparr>rateMeter := Some (Some exampleReadOnlyDatabase)\<rparr>)
      = Some (Some exampleReadOnlyDatabase)"
    by simp
  have refused: "updateError exampleReadOnlyDatabase
      = Some (Error ''SQLITE_READONLY: attempt to write a readonly database'')"
    by (simp add: exampleReadOnlyDatabase_def exampleDatabase_def)
  have "fst (processRequest plainPathNode (setConfiguration exampleConfiguration) exampleConfiguration 25
          (exampleState\<lparr>rateMeter := Some (Some exampleReadOnlyDatabase)\<rparr>) exampleRequest)
     = Inr (ProxyWeb ''http://tiles.example.com/arcgis'' (Some ''tiles.example.com''))
   \<and> rateMeter (snd (processRequest plainPathNode (setConfiguration exampleConfiguration)
          exampleConfiguration 25
          (exampleState\<lparr>rateMeter := Some (Some exampleReadOnlyDatabase)\<rparr>) exampleRequest))
     = Some (Some exampleReadOnlyDatabase)"
    using processRequest_metered [OF parse example_referrer notPing notEcho notStatus valid example_match
        cap meter, of 25]
    by (simp add: example_read_only isTruthy_def example_forwarded exampleState_def)
  with refused show ?thesis by simp
qed

text \<open>
  What a metered request is answered with, the meter's table and errors given.
\<close>

lemma processRequest_meter_reply:
  assumes "parseURLRequest nodejs (req_url req) (listenURI cfg) = Inr parts"
    and "validatedReferrerFromReferrer nodejs parser (Some (requestReferrer req)) (allowedReferrers cfg)
         = Inr (Some referrer)"
    and "listenPath parts \<noteq> localPingURL cfg"
    and "Some (proxyPath parts) \<noteq> localEchoURL cfg"
    and "listenPath parts \<noteq> localStatusURL cfg"
    and "isValidURLRequest cfg (listenPath parts)"
    and "getServerUrlInfo nodejs cfg parts = Inr (Some serverURLInfo)"
    and "useRateMeter serverURLInfo"
    and "rateMeter st = Some dbConnection"
  shows "fst (processRequest nodejs parser cfg now st req) =
     (case dbConnection of
        None \<Rightarrow>
          Inr (SendJSON 420 (errorDocument (req_url req) 420
            (getStringTableEntry cfg ''Metered resource status failed'' [])))
      | Some db \<Rightarrow>
          (case selectError db of
             Some error \<Rightarrow>
               Inr (SendJSON 420 (errorDocument (req_url req) 420
                 (getStringTableEntry cfg ''Metered resource status failed'' [])))
           | None \<Rightarrow>
               (case find (\<lambda>r. ips_referrer r = referrer \<and> ips_url r = url serverURLInfo) (ips db) of
                  None \<Rightarrow> Inl (Thrown (ReferenceError ''url''))
                | Some row \<Rightarrow>
                    if ips_count row = 0
                       \<or> numLe (numAdd (Finite (ips_time row)) (ratePeriodSeconds serverURLInfo))
                            (Finite now)
                       \<or> numLt (Finite (of_int (ips_count row))) (rate serverURLInfo)
                    then fst (processValidatedRequest nodejs parser cfg st parts serverURLInfo referrer req)
                    else Inr (SendJSON 429 (errorDocument (req_url req) 429
                           (getStringTableEntry cfg ''Metered requests exceeded'' []))))))"
proof -
  note step = processRequest_metered [OF assms, of now]
  have same: "fst (processValidatedRequest nodejs parser cfg
          (st\<lparr>attemptedRequests := attemptedRequests st + 1,
              rateMeter := Some (snd (isUnderMeterCap dbConnection now referrer serverURLInfo))\<rparr>)
          parts serverURLInfo referrer req)
      = fst (processValidatedRequest nodejs parser cfg st parts serverURLInfo referrer req)"
    by (rule processValidatedRequest_reply) simp
  show ?thesis
  proof (cases dbConnection)
    case None
    then show ?thesis using step by (simp add: isUnderMeterCap_settles)
  next
    case (Some db)
    show ?thesis
    proof (cases "selectError db")
      case failed: (Some error)
      then show ?thesis using step Some by (simp add: isUnderMeterCap_settles)
    next
      case selected: None
      show ?thesis
      proof (cases "find (\<lambda>r. ips_referrer r = referrer \<and> ips_url r = url serverURLInfo) (ips db)")
        case None
        then show ?thesis using step Some selected by (simp add: isUnderMeterCap_settles)
      next
        case found: (Some row)
        have "fst (isUnderMeterCap dbConnection now referrer serverURLInfo) =
            Resolved (IsOK (ips_count row = 0
              \<or> numLe (numAdd (Finite (ips_time row)) (ratePeriodSeconds serverURLInfo)) (Finite now)
              \<or> numLt (Finite (of_int (ips_count row))) (rate serverURLInfo)))"
          using Some selected found by (simp add: isUnderMeterCap_settles)
        then show ?thesis
          using step same Some selected found
          by (simp only: promise.case isTruthy_def meterAnswer.case option.case split: if_splits)
      qed
    qed
  qed
qed

text \<open>
  C6, amended: a request that the dispatcher has matched to a serverUrl with a rate cap
  goes through the rate meter (the server is one that has started: \<open>rateMeter\<close> is
  set). The client is sent the error document with status 420 when the meter rejects
  its promise, which it does when its database is not open or its SELECT fails, and the
  error document with status 429 when the meter finds the row of the key and denies the
  request; a request the meter admits goes on to \<open>processValidatedRequest\<close>. A failure
  of the meter's UPDATE changes nothing in the reply: it is only logged.
\<close>

theorem dispatcher_meter_statuses:
  assumes "parseURLRequest nodejs (req_url req) (listenURI cfg) = Inr parts"
    and "validatedReferrerFromReferrer nodejs parser (Some (requestReferrer req)) (allowedReferrers cfg)
         = Inr (Some referrer)"
    and "listenPath parts \<noteq> localPingURL cfg"
    and "Some (proxyPath parts) \<noteq> localEchoURL cfg"
    and "listenPath parts \<noteq> localStatusURL cfg"
    and "isValidURLRequest cfg (listenPath parts)"
    and "getServerUrlInfo nodejs cfg parts = Inr (Some serverURLInfo)"
    and "useRateMeter serverURLInfo"
    and "rateMeter st = Some dbConnection"
  shows "(dbConnection = None \<longrightarrow>
            fst (processRequest nodejs parser cfg now st req) =
              Inr (SendJSON 420 (errorDocument (req_url req) 420
                (getStringTableEntry cfg ''Metered resource status failed'' []))))
     \<and> (\<forall>db error. dbConnection = Some db \<and> selectError db = Some error \<longrightarrow>
            fst (processRequest nodejs parser cfg now st req) =
              Inr (SendJSON 420 (errorDocument (req_url req) 420
                (getStringTableEntry cfg ''Metered resource status failed'' []))))
     \<and> (\<forall>db row. dbConnection = Some db \<and> selectError db = None
            \<and> find (\<lambda>r. ips_referrer r = referrer \<and> ips_url r = url serverURLInfo) (ips db) = Some row \<longrightarrow>
            fst (processRequest nodejs parser cfg now st req) =
              (if ips_count row = 0
                  \<or> numLe (numAdd (Finite (ips_time row)) (ratePeriodSeconds serverURLInfo))
                       (Finite now)
                  \<or> numLt (Finite (of_int (ips_count row))) (rate serverURLInfo)
               then fst (processValidatedRequest nodejs parser cfg st parts serverURLInfo referrer req)
               else Inr (SendJSON 429 (errorDocument (req_url req) 429
                      (getStringTableEntry cfg ''Metered requests exceeded'' [])))))"
  using processRequest_meter_reply [OF assms, of now] by simp

theorem dispatcher_meter_statuses_witness:
  "fst (processRequest plainPathNode (setConfiguration exampleConfiguration) exampleConfiguration 1
          exampleState exampleRequest)
     = Inr (SendJSON 429 (errorDocument ''/proxy/http/tiles.example.com/arcgis'' 429
             ''Metered requests exceeded''))
   \<and> fst (processRequest plainPathNode (setConfiguration exampleConfiguration) exampleConfiguration 1
          (exampleState\<lparr>rateMeter := Some (Some exampleBusyDatabase)\<rparr>) exampleRequest)
     = Inr (SendJSON 420 (errorDocument ''/proxy/http/tiles.example.com/arcgis'' 420
             ''Metered resource status failed''))"
proof -
  let ?parts = "\<lparr>listenPath = ''/proxy'', proxyPath = ''/tiles.example.com/arcgis'', rp_query = [],
                 rp_protocol = ''http''\<rparr>"
  have parse: "parseURLRequest plainPathNode (req_url exampleRequest) (listenURI exampleConfiguration)
      = Inr ?parts"
    using example_parse by (simp add: exampleRequest_def exampleConfiguration_def)
  have referrer: "validatedReferrerFromReferrer plainPathNode (setConfiguration exampleConfiguration)
      (Some (requestReferrer exampleRequest)) (allowedReferrers exampleConfiguration) = Inr (Some ''*'')"
    by (rule example_referrer)
  have notPing: "listenPath ?parts \<noteq> localPingURL exampleConfiguration"
    and notEcho: "Some (proxyPath ?parts) \<noteq> localEchoURL exampleConfiguration"
    and notStatus: "listenPath ?parts \<noteq> localStatusURL exampleConfiguration"
    by (simp_all add: exampleConfiguration_def)
  have valid: "isValidURLRequest exampleConfiguration (listenPath ?parts)"
    using example_valid by simp
  have matched: "getServerUrlInfo plainPathNode exampleConfiguration ?parts = Inr (Some exampleServerUrl)"
    by (rule example_match)
  have cap: "useRateMeter exampleServerUrl"
    by (simp add: exampleServerUrl_fields)
  have meter: "rateMeter exampleState = Some (Some exampleDatabase)"
    by (simp add: exampleState_def)
  have busy: "rateMeter (exampleState\<lparr>rateMeter := Some (Some exampleBusyDatabase)\<rparr>)
      = Some (Some exampleBusyDatabase)"
    by simp
  have found: "find (\<lambda>r. ips_referrer r = ''*'' \<and> ips_url r = url exampleServerUrl) (ips exampleDatabase)
      = Some exampleRow"
    by (simp add: exampleDatabase_def exampleRow_def exampleServerUrl_fields exampleConfigured_def)
  have selected: "selectError exampleDatabase = None"
    by (simp add: exampleDatabase_def)
  have locked: "selectError exampleBusyDatabase = Some (Error ''SQLITE_BUSY: database is locked'')"
    by (simp add: exampleBusyDatabase_def exampleDatabase_def)
  note denied = dispatcher_meter_statuses [OF parse referrer notPing notEcho notStatus valid matched cap meter,
      of 1, THEN conjunct2, THEN conjunct2, rule_format, of exampleDatabase exampleRow]
  note failed = dispatcher_meter_statuses [OF parse referrer notPing notEcho notStatus valid matched cap busy,
      of 1, THEN conjunct2, THEN conjunct1, rule_format, of exampleBusyDatabase
        "Error ''SQLITE_BUSY: database is locked''"]
  show ?thesis
    using denied found selected failed locked
    by (simp add: exampleRow_def exampleServerUrl_fields exampleConfigured_def example_window_end
        exampleRequest_def exampleConfiguration_def
        del: numAdd.simps)
qed

text \<open>
  C10 describes what \<open>isUnderMeterCap\<close> is written to do for a key without a row:
  resolve the promise with an Error. The code does not get that far. The Error's message
  is built from the identifier \<open>url\<close>, which RateMeter.js declares nowhere, so building
  it throws a ReferenceError inside the database callback: the promise is never settled,
  neither function given to \<open>then\<close> runs, and the request is neither forwarded nor
  answered.
\<close>

lemma missing_row_uncaught:
  "selectError db = None \<Longrightarrow>
   find (\<lambda>r. ips_referrer r = referrer \<and> ips_url r = url serverURL) (ips db) = None \<Longrightarrow>
   isUnderMeterCap (Some db) now referrer serverURL = (Uncaught (ReferenceError ''url''), Some db)"
  by (simp add: isUnderMeterCap_def readIdentifier_def isUnderMeterCap_scope_def)

theorem missing_row_request:
  "fst (isUnderMeterCap (Some (exampleDatabase\<lparr>ips := []\<rparr>)) 1 ''*'' exampleServerUrl)
     = Uncaught (ReferenceError ''url'')
   \<and> fst (processRequest plainPathNode (setConfiguration exampleConfiguration) exampleConfiguration 1
          (exampleState\<lparr>rateMeter := Some (Some (exampleDatabase\<lparr>ips := []\<rparr>))\<rparr>) exampleRequest)
     = Inl (Thrown (ReferenceError ''url''))"
proof -
  have m: "isUnderMeterCap (Some (exampleDatabase\<lparr>ips := []\<rparr>)) 1 ''*'' exampleServerUrl
      = (Uncaught (ReferenceError ''url''), Some (exampleDatabase\<lparr>ips := []\<rparr>))"
    by (rule missing_row_uncaught) (simp_all add: exampleDatabase_def)
  let ?parts = "\<lparr>listenPath = ''/proxy'', proxyPath = ''/tiles.example.com/arcgis'', rp_query = [],
                 rp_protocol = ''http''\<rparr>"
  have parse: "parseURLRequest plainPathNode (req_url exampleRequest) (listenURI exampleConfiguration)
      = Inr ?parts"
    using example_parse by (simp add: exampleRequest_def exampleConfiguration_def)
  have notPing: "listenPath ?parts \<noteq> localPingURL exampleConfiguration"
    and notEcho: "Some (proxyPath ?parts) \<noteq> localEchoURL exampleConfiguration"
    and notStatus: "listenPath ?parts \<noteq> localStatusURL exampleConfiguration"
    by (simp_all add: exampleConfiguration_def)
  have valid: "isValidURLRequest exampleConfiguration (listenPath ?parts)"
    using example_valid by simp
  have cap: "useRateMeter exampleServerUrl"
    by (simp add: exampleServerUrl_fields)
  have meter: "rateMeter (exampleState\<lparr>rateMeter := Some (Some (exampleDatabase\<lparr>ips := []\<rparr>))\<rparr>)
      = Some (Some (exampleDatabase\<lparr>ips := []\<rparr>))"
    by simp
  have "fst (processRequest plainPathNode (setConfiguration exampleConfiguration) exampleConfiguration 1
          (exampleState\<lparr>rateMeter := Some (Some (exampleDatabase\<lparr>ips := []\<rparr>))\<rparr>) exampleRequest)
     = Inl (Thrown (ReferenceError ''url''))"
    using processRequest_metered [OF parse example_referrer notPing notEcho notStatus valid example_match
        cap meter, of 1]
    by (simp add: m)
  with m show ?thesis by simp
qed

section \<open>The serverUrl of a request\<close>

lemma processRequest_unmetered:
  assumes "parseURLRequest nodejs (req_url req) (listenURI cfg) = Inr parts"
    and "validatedReferrerFromReferrer nodejs parser (Some (requestReferrer req)) (allowedReferrers cfg)
         = Inr (Some referrer)"
    and "listenPath parts \<noteq> localPingURL cfg"
    and "Some (proxyPath parts) \<noteq> localEchoURL cfg"
    and "listenPath parts \<noteq> localStatusURL cfg"
    and "isValidURLRequest cfg (listenPath parts)"
    and "getServerUrlInfo nodejs cfg parts = Inr (Some serverURLInfo)"
    and "\<not> useRateMeter serverURLInfo"
  shows "processRequest nodejs parser cfg now st req =
     processValidatedRequest nodejs parser cfg (st\<lparr>attemptedRequests := attemptedRequests st + 1\<rparr>)
       parts serverURLInfo referrer req"
  using assms by (simp add: processRequest_def Let_def)

lemma processRequest_unmatched:
  assumes "parseURLRequest nodejs (req_url req) (listenURI cfg) = Inr parts"
    and "validatedReferrerFromReferrer nodejs parser (Some (requestReferrer req)) (allowedReferrers cfg)
         = Inr (Some referrer)"
    and "listenPath parts \<noteq> localPingURL cfg"
    and "Some (proxyPath parts) \<noteq> localEchoURL cfg"
    and "listenPath parts \<noteq> localStatusURL cfg"
    and "isValidURLRequest cfg (listenPath parts)"
    and "getServerUrlInfo nodejs cfg parts = Inr None"
    and "mustMatch cfg"
  shows "fst (processRequest nodejs parser cfg now st req) =
     Inr (SendJSON 404 (errorDocument (req_url req) 404
       (getStringTableEntry cfg ''Resource not found'' [(''url'', req_url req)])))"
  using assms by (simp add: processRequest_def Let_def sendErrorResponse_def)

lemma wildcard_parts:
  "parseAndFixURLParts plainPathNode ''/www.example.com/arcgis'' =
     \<lparr>protocol = Some ''*'', hostname = Some ''www.example.com'', port = Some ''*'',
      pathname = Some ''/arcgis'', path = Some ''/arcgis'', query = None,
      host = Some ''www.example.com'', matchAll = None\<rparr>"
  by (simp add: parseAndFixURLParts_def plainPathNode_def indexOf_def substr_def substr2_def Let_def)

lemma stars_parts:
  "parseAndFixURLParts plainPathNode ''/*.*.*/arcgis'' =
     \<lparr>protocol = Some ''*'', hostname = Some ''*.*.*'', port = Some ''*'',
      pathname = Some ''/arcgis'', path = Some ''/arcgis'', query = None,
      host = Some ''*.*.*'', matchAll = None\<rparr>"
  by (simp add: parseAndFixURLParts_def plainPathNode_def indexOf_def substr_def substr2_def Let_def)

lemma capitals_parts:
  "parseAndFixURLParts plainPathNode ''/TILES.example.com/arcgis'' =
     \<lparr>protocol = Some ''*'', hostname = Some ''TILES.example.com'', port = Some ''*'',
      pathname = Some ''/arcgis'', path = Some ''/arcgis'', query = None,
      host = Some ''TILES.example.com'', matchAll = None\<rparr>"
  by (simp add: parseAndFixURLParts_def plainPathNode_def indexOf_def substr_def substr2_def Let_def)

text \<open>
  \<open>parseAndFixURLParts\<close> makes of the entry \<open>url="*.example.com/arcgis"\<close> the parts
  of \<open>wildcardServerUrl\<close>.
\<close>

lemma wildcard_entry:
  "parseAndFixURLParts plainPathNode ''*.example.com/arcgis'' =
     \<lparr>protocol = Some ''*'', hostname = Some ''*.example.com'', port = Some ''*'',
      pathname = Some ''/arcgis'', path = Some ''/arcgis'', query = None,
      host = Some ''*.example.com'', matchAll = None\<rparr>"
  by (simp add: parseAndFixURLParts_def plainPathNode_def indexOf_def substr_def substr2_def Let_def)

lemma wildcard_unmatched:
  "getServerUrlInfo plainPathNode wildcardConfiguration
     \<lparr>listenPath = ''/proxy'', proxyPath = ''/www.example.com/arcgis'', rp_query = [],
      rp_protocol = ''http''\<rparr> = Inr None"
  by (simp add: getServerUrlInfo_def wildcard_parts charAt_def Let_def wildcardConfiguration_def
      exampleConfiguration_def wildcardServerUrl_def
      parsedUrlPartsMatch_def testDomainsMatch_iff exampleConfigured_def)

lemma stars_matched:
  "getServerUrlInfo plainPathNode exampleConfiguration
     \<lparr>listenPath = ''/proxy'', proxyPath = ''/*.*.*/arcgis'', rp_query = [],
      rp_protocol = ''http''\<rparr> = Inr (Some exampleServerUrl)"
  by (simp add: getServerUrlInfo_def stars_parts charAt_def Let_def exampleConfiguration_def
      parsedUrlPartsMatch_def testDomainsMatch_iff exampleServerUrl_fields exampleConfigured_def
      startsWith_def indexOf_def toLowerCase_def toLowerChar_def)

lemma capitals_unmatched:
  "getServerUrlInfo plainPathNode exampleConfiguration
     \<lparr>listenPath = ''/proxy'', proxyPath = ''/TILES.example.com/arcgis'', rp_query = [],
      rp_protocol = ''http''\<rparr> = Inr None"
  by (simp add: getServerUrlInfo_def capitals_parts charAt_def Let_def exampleConfiguration_def
      parsedUrlPartsMatch_def testDomainsMatch_iff exampleServerUrl_fields exampleConfigured_def)

lemma wildcard_parse:
  "parseURLRequest plainPathNode ''/proxy/http/www.example.com/arcgis'' [''/proxy''] =
     Inr \<lparr>listenPath = ''/proxy'', proxyPath = ''/www.example.com/arcgis'', rp_query = [],
          rp_protocol = ''http''\<rparr>"
  by (simp add: parseURLRequest_def plainPathNode_def cutAt_def indexOf_def substr_def substr2_def
      Let_def)

lemma wildcard_referrer:
  "validatedReferrerFromReferrer plainPathNode (setConfiguration wildcardConfiguration) r
     (allowedReferrers wildcardConfiguration) = Inr (Some ''*'')"
  by (simp add: validatedReferrerFromReferrer_def setConfiguration_def wildcardConfiguration_def
      exampleConfiguration_def)

text \<open>
  C4: the host match of the serverUrl matcher takes its pattern from the wrong side.
  \<open>getServerUrlInfo\<close> calls \<open>parsedUrlPartsMatch(urlParts, serverUrl)\<close> with the request's
  parts first, and \<open>parsedUrlPartsMatch\<close> hands the first host name to
  \<open>testDomainsMatch\<close> as \<open>wildCardDomain\<close>: a \<open>*\<close> counts as a wild card in the
  request's host, not in the configured one, and the pieces are compared as they are,
  with regard to case. A request for \<open>www.example.com\<close> finds no serverUrl in a
  configuration that has \<open>*.example.com\<close> and is answered with status 404, although
  the specification's host match holds between the two; a request for the host
  \<open>*.*.*\<close> is matched to the serverUrl of \<open>tiles.example.com\<close>, where the
  specification's match fails; a request for \<open>TILES.example.com\<close> is not matched to
  it, where the specification's match holds.
\<close>

theorem resource_host_match_swapped:
  "hostMatchSpec ''*.example.com'' ''www.example.com''
   \<and> getServerUrlInfo plainPathNode wildcardConfiguration
       \<lparr>listenPath = ''/proxy'', proxyPath = ''/www.example.com/arcgis'', rp_query = [],
        rp_protocol = ''http''\<rparr> = Inr None
   \<and> fst (processRequest plainPathNode (setConfiguration wildcardConfiguration) wildcardConfiguration 1
          exampleState wildcardRequest)
     = Inr (SendJSON 404 (errorDocument ''/proxy/http/www.example.com/arcgis'' 404 ''Resource not found''))
   \<and> \<not> hostMatchSpec ''tiles.example.com'' ''*.*.*''
   \<and> getServerUrlInfo plainPathNode exampleConfiguration
       \<lparr>listenPath = ''/proxy'', proxyPath = ''/*.*.*/arcgis'', rp_query = [],
        rp_protocol = ''http''\<rparr> = Inr (Some exampleServerUrl)
   \<and> hostMatchSpec ''tiles.example.com'' ''TILES.example.com''
   \<and> getServerUrlInfo plainPathNode exampleConfiguration
       \<lparr>listenPath = ''/proxy'', proxyPath = ''/TILES.example.com/arcgis'', rp_query = [],
        rp_protocol = ''http''\<rparr> = Inr None"
proof -
  let ?parts = "\<lparr>listenPath = ''/proxy'', proxyPath = ''/www.example.com/arcgis'', rp_query = [],
                 rp_protocol = ''http''\<rparr>"
  have parse: "parseURLRequest plainPathNode (req_url wildcardRequest) (listenURI wildcardConfiguration)
      = Inr ?parts"
    using wildcard_parse
    by (simp add: wildcardRequest_def exampleRequest_def wildcardConfiguration_def exampleConfiguration_def)
  have notPing: "listenPath ?parts \<noteq> localPingURL wildcardConfiguration"
    and notEcho: "Some (proxyPath ?parts) \<noteq> localEchoURL wildcardConfiguration"
    and notStatus: "listenPath ?parts \<noteq> localStatusURL wildcardConfiguration"
    and must: "mustMatch wildcardConfiguration"
    by (simp_all add: wildcardConfiguration_def exampleConfiguration_def)
  have valid: "isValidURLRequest wildcardConfiguration (listenPath ?parts)"
    by (simp add: isValidURLRequest_def wildcardConfiguration_def exampleConfiguration_def)
  have refused: "fst (processRequest plainPathNode (setConfiguration wildcardConfiguration)
          wildcardConfiguration 1 exampleState wildcardRequest)
     = Inr (SendJSON 404 (errorDocument ''/proxy/http/www.example.com/arcgis'' 404 ''Resource not found''))"
    using processRequest_unmatched [OF parse wildcard_referrer notPing notEcho notStatus valid
        wildcard_unmatched must, of 1 exampleState]
    by (simp add: wildcardRequest_def exampleRequest_def wildcardConfiguration_def exampleConfiguration_def)
  have spec: "hostMatchSpec ''*.example.com'' ''www.example.com''"
    "\<not> hostMatchSpec ''tiles.example.com'' ''*.*.*''"
    "hostMatchSpec ''tiles.example.com'' ''TILES.example.com''"
    by (simp_all add: hostMatchSpec_def toLowerCase_def toLowerChar_def)
  show ?thesis
    using spec refused wildcard_unmatched stars_matched capitals_unmatched by blast
qed

section \<open>The ping\<close>

lemma ping_parse:
  "parseURLRequest plainPathNode ''/ping'' [''/proxy''] =
     Inr \<lparr>listenPath = ''/ping'', proxyPath = [], rp_query = [], rp_protocol = ''*''\<rparr>"
  by (simp add: parseURLRequest_def plainPathNode_def cutAt_def indexOf_def substr_def substr2_def
      Let_def charAt_def)

lemma ping_referrer_denied:
  "validatedReferrerFromReferrer plainPathNode (setConfiguration strictConfiguration)
     (Some (requestReferrer pingRequest)) (allowedReferrers strictConfiguration) = Inr None"
  by (simp add: validatedReferrerFromReferrer_def setConfiguration_def strictConfiguration_def
      exampleConfiguration_def requestReferrer_def pingRequest_def trim_def isWhiteSpace_def
      toLowerCase_def toLowerChar_def parseAndFixURLParts_def plainPathNode_def indexOf_def
      substr_def substr2_def Let_def testProtocolsMatch_def)

text \<open>
  C8, as stated, fails: a ping whose \<open>Referer\<close> is not in the allow-list is answered with
  the error document and status 403, not with the ping document.
\<close>

theorem ping_referrer_counterexample:
  "parseURLRequest plainPathNode (req_url pingRequest) (listenURI strictConfiguration)
     = Inr \<lparr>listenPath = localPingURL strictConfiguration, proxyPath = [], rp_query = [],
            rp_protocol = ''*''\<rparr>
   \<and> fst (processRequest plainPathNode (setConfiguration strictConfiguration) strictConfiguration 0
          exampleState pingRequest)
       = Inr (SendJSON 403 (errorDocument ''/ping'' 403 ''Referrer not allowed''))"
proof -
  have parse: "parseURLRequest plainPathNode (req_url pingRequest) (listenURI strictConfiguration)
     = Inr \<lparr>listenPath = ''/ping'', proxyPath = [], rp_query = [], rp_protocol = ''*''\<rparr>"
    using ping_parse by (simp add: pingRequest_def strictConfiguration_def exampleConfiguration_def)
  have "fst (processRequest plainPathNode (setConfiguration strictConfiguration) strictConfiguration 0
          exampleState pingRequest)
       = Inr (SendJSON 403 (errorDocument ''/ping'' 403 ''Referrer not allowed''))"
    by (simp add: processRequest_def parse ping_referrer_denied sendErrorResponse_def)
      (simp add: pingRequest_def strictConfiguration_def exampleConfiguration_def)
  with parse show ?thesis
    by (simp add: strictConfiguration_def exampleConfiguration_def)
qed

text \<open>
  C8, amended: for every inbound request whose parsed path equals the configured ping
  path, the dispatcher first validates the referrer; when the validator returns a key,
  it replies 200 with a JSON document of the keys \<open>Proxy Version\<close> (the server's
  version, 0.1.5), \<open>Configuration File\<close>, \<open>Log File\<close> and \<open>referrer\<close> (that key); when
  the referrer is not allowed, it replies with the error document and status 403.
\<close>

theorem ping_reply:
  assumes "parseURLRequest nodejs (req_url req) (listenURI cfg) = Inr parts"
    and "listenPath parts = localPingURL cfg"
  shows "fst (processRequest nodejs parser cfg now st req) =
     (case validatedReferrerFromReferrer nodejs parser (Some (requestReferrer req)) (allowedReferrers cfg) of
        Inl thrown \<Rightarrow> Inl (Thrown thrown)
      | Inr None \<Rightarrow>
          Inr (SendJSON 403 (errorDocument (req_url req) 403
            (getStringTableEntry cfg ''Referrer not allowed'' [(''referrer'', ''null'')])))
      | Inr (Some referrer) \<Rightarrow>
          Inr (SendJSON 200
            (JObject [(''Proxy Version'', JString ''0.1.5''), (''Configuration File'', JString ''OK''),
                      (''Log File'', JString ''OK''), (''referrer'', JString referrer)])))"
  using assms
  by (simp add: processRequest_def Let_def sendErrorResponse_def sendPingResponse_def pingDocument_def
      proxyVersion_def split: sum.splits option.splits)

theorem ping_reply_witness:
  "fst (processRequest plainPathNode (setConfiguration exampleConfiguration) exampleConfiguration 0
          exampleState pingRequest)
     = Inr (SendJSON 200
         (JObject [(''Proxy Version'', JString ''0.1.5''), (''Configuration File'', JString ''OK''),
                   (''Log File'', JString ''OK''), (''referrer'', JString ''*'')]))"
proof -
  let ?parts = "\<lparr>listenPath = ''/ping'', proxyPath = [], rp_query = [], rp_protocol = ''*''\<rparr>"
  have parse: "parseURLRequest plainPathNode (req_url pingRequest) (listenURI exampleConfiguration)
     = Inr ?parts"
    using ping_parse by (simp add: pingRequest_def exampleConfiguration_def)
  have ping: "listenPath ?parts = localPingURL exampleConfiguration"
    by (simp add: exampleConfiguration_def)
  show ?thesis
    using ping_reply [OF parse ping, of "setConfiguration exampleConfiguration" 0 exampleState]
    by (simp add: example_referrer)
qed

section \<open>The referrer allow-list\<close>

lemma parseAndFixURLParts_path: "path (parseAndFixURLParts nodejs u) \<noteq> None"
  by (simp add: parseAndFixURLParts_def Let_def)

lemma cacheAllowedReferrers_allowAny:
  "allowAnyReferrer cfg \<or> ''*'' \<in> set entries \<Longrightarrow>
   \<exists>cfg'. cacheAllowedReferrers nodejs entries cfg = Inr cfg' \<and> allowAnyReferrer cfg'"
proof (induction entries arbitrary: cfg)
  case Nil
  then show ?case by simp
next
  case (Cons entry entries)
  show ?case
  proof (cases "entry = ''*''")
    case True
    then show ?thesis
      using Cons.IH [of "cfg\<lparr>allowAnyReferrer := True,
                  allowedReferrers := allowedReferrers cfg @
                    [\<lparr>ar_protocol = Some ''*'', ar_hostname = Some ''*'', ar_path = Some ''*'',
                      ar_referrer = Some ''*''\<rparr>]\<rparr>"]
      by simp
  next
    case False
    obtain parts where parts: "parts = parseAndFixURLParts nodejs (trim (toLowerCase entry))"
      by simp
    obtain p where p: "path parts = Some p"
      using parseAndFixURLParts_path [of nodejs "trim (toLowerCase entry)"] parts by auto
    show ?thesis
      using False Cons.prems Cons.IH parts [symmetric] p
      by (simp add: Let_def fullReferrerURLFromParts_def split: option.splits)
  qed
qed


text \<open>
  C7: when the configured allow-list has the entry \<open>*\<close>, the configuration is parsed
  with \<open>allowAnyReferrer\<close> on, and the referrer validator then answers the key \<open>*\<close>
  for every referrer, whatever the list it is given holds: it does not look at it.
\<close>

theorem accept_any_referrer:
  assumes "''*'' \<in> set (referrersAsArray section)"
  shows "\<exists>cfg'. postParseAllowedReferrers nodejs (Some section) cfg = Inr cfg'
           \<and> allowAnyReferrer cfg'
           \<and> validatedReferrerFromReferrer nodejs (setConfiguration cfg') referrer allowed
               = Inr (Some ''*'')"
proof -
  obtain cfg' where "cacheAllowedReferrers nodejs (referrersAsArray section)
      (cfg\<lparr>allowedReferrers := []\<rparr>) = Inr cfg'" and "allowAnyReferrer cfg'"
    using cacheAllowedReferrers_allowAny [of "cfg\<lparr>allowedReferrers := []\<rparr>" "referrersAsArray section" nodejs]
      assms by blast
  then show ?thesis
    by (simp add: postParseAllowedReferrers_def validatedReferrerFromReferrer_def setConfiguration_def)
qed

theorem accept_any_referrer_witness:
  "''*'' \<in> set (referrersAsArray (ReferrersString ''www.example.com/app,*''))
   \<and> (\<exists>cfg'. postParseAllowedReferrers plainPathNode (Some (ReferrersString ''www.example.com/app,*''))
               strictConfiguration = Inr cfg'
         \<and> allowAnyReferrer cfg'
         \<and> validatedReferrerFromReferrer plainPathNode (setConfiguration cfg')
               (Some ''evil.example.net/'') (allowedReferrers strictConfiguration) = Inr (Some ''*''))"
proof -
  have entry: "''*'' \<in> set (referrersAsArray (ReferrersString ''www.example.com/app,*''))"
    by (simp add: referrersAsArray_def indexOf_def)
  show ?thesis
    using entry accept_any_referrer [OF entry, of plainPathNode strictConfiguration
        "Some ''evil.example.net/''" "allowedReferrers strictConfiguration"]
    by blast
qed

section \<open>Inspection of the upstream's response\<close>

lemma checkForMissingToken_never: "checkForMissingToken body \<noteq> Inr True"
  by (cases body) (simp_all add: checkForMissingToken_def errorProperty_def isTruthyBody_def)

lemma inspectBody_never: "inspectBody z headers chunks \<noteq> Inr True"
  by (auto simp: inspectBody_def Let_def checkForMissingToken_never split: option.splits sum.splits)

lemma proxyResponseEnd_passes:
  "proxyResponseEnd z cfg headers chunks =
     [ResponseWrite (case headers of None \<Rightarrow> [] | Some h \<Rightarrow> concat chunks), ResponseEnd]"
  using inspectBody_never [of z headers chunks]
  by (cases "inspectBody z headers chunks") (auto simp: proxyResponseEnd_def Let_def)

text \<open>
  C2 is what the comments of \<open>checkServerResponseForMissingToken\<close> say the forwarder
  should do, and the code does not do it. The callback reads \<open>body.error.code\<close> of the
  body's text, which throws; the exception is caught, \<open>tokenIsMissing\<close> stays
  \<open>false\<close>, and the upstream's error response is written to the client as it is. No
  token is invalidated, the broker is not asked, nothing is replayed.
\<close>

theorem auth_error_passed_through:
  "inspectBody refusingZlib (Some Map.empty) [invalidTokenBody]
     = Inl (TypeError ''Cannot read property code of undefined'')
   \<and> proxyResponseRewrite refusingZlib exampleConfiguration
       (Some (exampleConfigured\<lparr>mayRequireToken := True\<rparr>)) (Some Map.empty) [invalidTokenBody]
     = [ResponseWrite invalidTokenBody, ResponseEnd]"
  by (simp add: proxyResponseRewrite_def proxyResponseEnd_passes exampleConfigured_def
      inspectBody_def checkForMissingToken_def errorProperty_def isTruthyBody_def
      invalidTokenBody_def toLowerCase_def toLowerChar_def)

section \<open>The parameters of a forwarded request\<close>

lemma map_of_setProperty:
  "map_of (setProperty k v object) =
     (if k = ''__proto__'' then map_of object else (map_of object)(k \<mapsto> v))"
  by (simp add: setProperty_def update_conv')

lemma distinct_setProperty:
  "distinct (map fst object) \<Longrightarrow> distinct (map fst (setProperty k v object))"
  by (simp add: setProperty_def distinct_update)

lemma storeMatches_distinct:
  "storeMatches matches object = Inr result \<Longrightarrow> distinct (map fst object) \<Longrightarrow>
   distinct (map fst result)"
proof (induction matches arbitrary: object)
  case Nil
  then show ?case by simp
next
  case (Cons m ms)
  then show ?case
    by (auto split: sum.splits intro: distinct_setProperty)
qed

lemma queryStringToObject_distinct:
  "queryStringToObject q = Inr object \<Longrightarrow> distinct (map fst object)"
  unfolding queryStringToObject_def using storeMatches_distinct [of _ "[]"] by simp

lemma parseQuery_distinct: "parseQuery q = Inr object \<Longrightarrow> distinct (map fst object)"
  by (auto simp: parseQuery_def queryStringToObject_distinct split: option.splits if_splits)

lemma storeMatches_proto:
  "storeMatches matches object = Inr result \<Longrightarrow> map_of object ''__proto__'' = None \<Longrightarrow>
   map_of result ''__proto__'' = None"
proof (induction matches arbitrary: object)
  case Nil
  then show ?case by simp
next
  case (Cons m ms)
  then show ?case
    by (auto split: sum.splits simp: map_of_setProperty)
qed

lemma parseQuery_proto: "parseQuery q = Inr object \<Longrightarrow> map_of object ''__proto__'' = None"
  using storeMatches_proto [of _ "[]"]
  by (auto simp: parseQuery_def queryStringToObject_def split: option.splits if_splits)

lemma set_forIn: "set (forIn object) = set object"
  by (auto simp: forIn_def)

lemma distinct_forIn:
  assumes "distinct (map fst object)"
  shows "distinct (map fst (forIn object))"
proof -
  have d: "distinct object" and i: "inj_on fst (set object)"
    using assms by (simp_all add: distinct_map)
  have "distinct (forIn object)"
    using d by (auto simp: forIn_def)
  moreover have "inj_on fst (set (forIn object))"
    using i by (simp add: set_forIn)
  ultimately show ?thesis by (simp add: distinct_map)
qed

lemma map_of_forIn: "distinct (map fst object) \<Longrightarrow> map_of (forIn object) = map_of object"
  using map_of_inject_set [of "forIn object" object] distinct_forIn [of object] set_forIn [of object]
  by simp

lemma overlayParameters_map_of:
  assumes "map_of requested ''hasOwnProperty'' = None"
    and "set ps \<subseteq> set requested"
    and "distinct (map fst ps)"
    and "''__proto__'' \<notin> fst ` set ps"
  shows "\<exists>result. overlayParameters ps requested configured = Inr result
           \<and> map_of result = map_of configured ++ map_of ps"
  using assms(2-4)
proof (induction ps arbitrary: configured)
  case Nil
  then show ?case by simp
next
  case (Cons p ps)
  have own: "hasOwnProperty requested (fst p) = Inr True"
  proof -
    have "p \<in> set requested" using Cons.prems(1) by simp
    then have "map_of requested (fst p) \<noteq> None"
      by (metis map_of_eq_None_iff image_eqI)
    then show ?thesis using assms(1) by (simp add: hasOwnProperty_def)
  qed
  obtain result where r: "overlayParameters ps requested (setProperty (fst p) (snd p) configured) = Inr result"
    and m: "map_of result = map_of (setProperty (fst p) (snd p) configured) ++ map_of ps"
    using Cons.IH [of "setProperty (fst p) (snd p) configured"] Cons.prems by auto
  have notin: "map_of ps (fst p) = None"
    using Cons.prems(2) by (simp add: map_of_eq_None_iff)
  have "map_of result = map_of configured ++ map_of (p # ps)"
  proof -
    have "map_of result = (map_of configured)(fst p \<mapsto> snd p) ++ map_of ps"
      using m Cons.prems(3) by (auto simp: map_of_setProperty)
    also have "\<dots> = (map_of configured ++ map_of ps)(fst p \<mapsto> snd p)"
      using notin by (auto simp: map_add_def fun_eq_iff split: option.splits)
    also have "\<dots> = map_of configured ++ map_of (p # ps)"
      by (simp only: map_of.simps map_add_upd)
    finally show ?thesis .
  qed
  moreover have "overlayParameters (p # ps) requested configured = Inr result"
    using own r by simp
  ultimately show ?case by blast
qed


lemma combineParameters_map_of:
  assumes "req_method req = ''GET''"
    and "parseQuery (query serverURLInfo) = Inr configured"
    and "parseQuery (Some (rp_query parts)) = Inr requested"
    and "map_of requested ''hasOwnProperty'' = None"
  shows "\<exists>parameters. combineParameters req parts serverURLInfo = Inr parameters
           \<and> map_of parameters = map_of configured ++ map_of requested"
proof -
  have c: "(case query serverURLInfo of None \<Rightarrow> Inr []
            | Some q \<Rightarrow> if length q > 0 then queryStringToObject q else Inr []) = Inr configured"
    using assms(2) by (simp add: parseQuery_def)
  show ?thesis
  proof (cases "length (rp_query parts) > 0")
    case False
    then have "requested = []" using assms(3) by (simp add: parseQuery_def)
    then show ?thesis using c False assms(1) by (simp add: combineParameters_def)
  next
    case True
    then have q: "queryStringToObject (rp_query parts) = Inr requested"
      using assms(3) by (simp add: parseQuery_def)
    have d: "distinct (map fst requested)"
      using assms(3) by (rule parseQuery_distinct)
    have p: "''__proto__'' \<notin> fst ` set (forIn requested)"
      using parseQuery_proto [OF assms(3)] by (simp add: set_forIn map_of_eq_None_iff)
    obtain result where "overlayParameters (forIn requested) requested configured = Inr result"
      and "map_of result = map_of configured ++ map_of (forIn requested)"
      using overlayParameters_map_of [OF assms(4), of "forIn requested" configured]
        distinct_forIn [OF d] p by (auto simp: set_forIn)
    then show ?thesis
      using c True assms(1) q by (simp add: combineParameters_def map_of_forIn [OF d])
  qed
qed

lemma map_of_addIfPropertyNotSet_token:
  "map_of (addIfPropertyNotSet object ''token'' v) =
     (case map_of object ''token'' of
        None \<Rightarrow> (map_of object)(''token'' \<mapsto> v)
      | Some present \<Rightarrow>
          if length (trim present) = 0 then (map_of object)(''token'' \<mapsto> v) else map_of object)"
  by (simp add: addIfPropertyNotSet_def map_of_setProperty objectPrototypeKeys_def
      split: option.splits)

text \<open>
  The map \<open>parameters\<close> of \<open>processValidatedRequest\<close>: the configured query overlaid with
  the request's, and the static access token under \<open>token\<close> where the merged map has
  no \<open>token\<close> or a blank one.
\<close>

lemma requestParameters_map_of:
  assumes "req_method req = ''GET''"
    and "parseQuery (query serverURLInfo) = Inr configured"
    and "parseQuery (Some (rp_query parts)) = Inr requested"
    and "map_of requested ''hasOwnProperty'' = None"
  shows "\<exists>parameters. requestParameters req parts serverURLInfo = Inr parameters
           \<and> map_of parameters =
               (let merged = map_of configured ++ map_of requested
                in case configuredToken serverURLInfo of
                     None \<Rightarrow> merged
                   | Some staticToken \<Rightarrow>
                       (case merged ''token'' of
                          None \<Rightarrow> merged(''token'' \<mapsto> staticToken)
                        | Some present \<Rightarrow>
                            if length (trim present) = 0 then merged(''token'' \<mapsto> staticToken)
                            else merged))"
proof -
  obtain parameters where "combineParameters req parts serverURLInfo = Inr parameters"
    and "map_of parameters = map_of configured ++ map_of requested"
    using combineParameters_map_of [OF assms] by blast
  then show ?thesis
    by (cases "configuredToken serverURLInfo")
      (auto simp: requestParameters_def map_of_addIfPropertyNotSet_token Let_def
        split: option.splits)
qed

lemma queryMatches_format: "queryMatches ''f=json'' = [(''f'', ''json'')]"
  apply (subst queryMatches.simps, simp)
  apply (subst queryMatches.simps, simp)
  done

lemma queryMatches_extra: "queryMatches ''x=1'' = [(''x'', ''1'')]"
  apply (subst queryMatches.simps, simp)
  apply (subst queryMatches.simps, simp)
  done

lemma token_parse:
  "parseURLRequest plainPathNode ''/proxy/http/tiles.example.com/arcgis?f=json'' [''/proxy'']
     = Inr (partsWithQuery ''f=json'')"
  by (simp add: parseURLRequest_def plainPathNode_def cutAt_def indexOf_def substr_def substr2_def
      Let_def partsWithQuery_def)

lemma query_parse:
  "parseURLRequest plainPathNode ''/proxy/http/tiles.example.com/arcgis?x=1'' [''/proxy'']
     = Inr (partsWithQuery ''x=1'')"
  by (simp add: parseURLRequest_def plainPathNode_def cutAt_def indexOf_def substr_def substr2_def
      Let_def partsWithQuery_def)

lemma token_match:
  "getServerUrlInfo plainPathNode tokenConfiguration (partsWithQuery ''f=json'')
     = Inr (Some tokenServerUrl)"
  by (simp add: getServerUrlInfo_def partsWithQuery_def example_parts charAt_def Let_def
      tokenConfiguration_def exampleConfiguration_def tokenServerUrl_def
      parsedUrlPartsMatch_def testDomainsMatch_iff exampleConfigured_def
      startsWith_def indexOf_def toLowerCase_def toLowerChar_def)

lemma query_match:
  "getServerUrlInfo plainPathNode queryConfiguration (partsWithQuery ''x=1'')
     = Inr (Some queryServerUrl)"
  by (simp add: getServerUrlInfo_def partsWithQuery_def example_parts charAt_def Let_def
      queryConfiguration_def exampleConfiguration_def queryServerUrl_def
      parsedUrlPartsMatch_def testDomainsMatch_iff exampleConfigured_def
      startsWith_def indexOf_def toLowerCase_def toLowerChar_def)

lemma token_parameters:
  "requestParameters tokenlessRequest (partsWithQuery ''f=json'') tokenServerUrl
     = Inr [(''f'', ''json''), (''token'', ''T'')]"
  by (simp add: requestParameters_def combineParameters_def tokenServerUrl_def exampleConfigured_def
      tokenlessRequest_def exampleRequest_def partsWithQuery_def queryStringToObject_def
      queryMatches_format decode_def setProperty_def forIn_def isArrayIndex_def isDecimal_def
      hasOwnProperty_def configuredToken_def isPropertySet_def trim_def isWhiteSpace_def
      addIfPropertyNotSet_def objectPrototypeKeys_def)

lemma query_parameters:
  "requestParameters queryRequest (partsWithQuery ''x=1'') queryServerUrl
     = Inr [(''f'', ''json''), (''x'', ''1'')]"
  by (simp add: requestParameters_def combineParameters_def queryServerUrl_def exampleConfigured_def
      queryRequest_def exampleRequest_def partsWithQuery_def queryStringToObject_def
      queryMatches_format queryMatches_extra decode_def setProperty_def forIn_def isArrayIndex_def
      isDecimal_def hasOwnProperty_def configuredToken_def isPropertySet_def)

lemma token_serialised:
  "objectToQueryString [(''f'', ''json''), (''token'', ''T'')] = Inr ''f=json&token=T''"
  by (simp add: objectToQueryString_def forIn_def isArrayIndex_def isDecimal_def
      hasOwnProperty_def encodeURIComponent_def encodeChar_def isUnreserved_def)

lemma query_serialised:
  "objectToQueryString [(''f'', ''json''), (''x'', ''1'')] = Inr ''f=json&x=1''"
  by (simp add: objectToQueryString_def forIn_def isArrayIndex_def isDecimal_def
      hasOwnProperty_def encodeURIComponent_def encodeChar_def isUnreserved_def)

lemma token_forwarded:
  "proxyServer st \<Longrightarrow>
   fst (processValidatedRequest plainPathNode (setConfiguration tokenConfiguration) tokenConfiguration
          st (partsWithQuery ''f=json'') tokenServerUrl ''*'' tokenlessRequest)
     = Inr (ProxyWeb ''http://tiles.example.com/arcgis?f=json'' (Some ''tiles.example.com''))"
  by (simp add: processValidatedRequest_def isEmptyObject_def token_parameters token_serialised)
    (simp add: tokenServerUrl_def exampleConfigured_def tokenlessRequest_def exampleRequest_def
      partsWithQuery_def buildURLFromReferrerRequestAndInfo_def indexOf_def Let_def)

lemma query_forwarded:
  "proxyServer st \<Longrightarrow>
   fst (processValidatedRequest plainPathNode (setConfiguration queryConfiguration) queryConfiguration
          st (partsWithQuery ''x=1'') queryServerUrl ''*'' queryRequest)
     = Inr (ProxyWeb ''http://tiles.example.com/arcgis?f=json?f=json'' (Some ''tiles.example.com''))"
  by (simp add: processValidatedRequest_def isEmptyObject_def query_parameters query_serialised)
    (simp add: queryServerUrl_def exampleConfigured_def queryRequest_def exampleRequest_def
      partsWithQuery_def buildURLFromReferrerRequestAndInfo_def indexOf_def Let_def)

lemma token_referrer:
  "validatedReferrerFromReferrer plainPathNode (setConfiguration tokenConfiguration) r
     (allowedReferrers tokenConfiguration) = Inr (Some ''*'')"
  by (simp add: validatedReferrerFromReferrer_def setConfiguration_def tokenConfiguration_def
      exampleConfiguration_def)

lemma query_referrer:
  "validatedReferrerFromReferrer plainPathNode (setConfiguration queryConfiguration) r
     (allowedReferrers queryConfiguration) = Inr (Some ''*'')"
  by (simp add: validatedReferrerFromReferrer_def setConfiguration_def queryConfiguration_def
      exampleConfiguration_def)

text \<open>
  C5: the merged parameters are computed and then left behind.
  \<open>processValidatedRequest\<close> merges the configured query with the request's, adds the
  static access token to the map \<open>parameters\<close> and serialises it as
  \<open>parametersCombined\<close>; the URL it forwards is built by
  \<open>buildURLFromReferrerRequestAndInfo\<close>, which is handed neither and appends the
  configured query or, when there is none, the request's. A request with the query
  \<open>f=json\<close> for a serverUrl with the static token \<open>T\<close> is forwarded with
  \<open>?f=json\<close>, without a token, although \<open>parameters\<close> and the specification's map
  hold \<open>token = T\<close>; a request with the query \<open>x=1\<close> for a serverUrl configured with
  the query \<open>f=json\<close> is forwarded with \<open>?f=json?f=json\<close>, without \<open>x=1\<close>.
\<close>

theorem static_token_not_forwarded:
  "requestParameters tokenlessRequest (partsWithQuery ''f=json'') tokenServerUrl
     = Inr [(''f'', ''json''), (''token'', ''T'')]
   \<and> mergedParametersSpec [] [(''f'', ''json'')] (Some ''T'') ''token'' = Some ''T''
   \<and> fst (processRequest plainPathNode (setConfiguration tokenConfiguration) tokenConfiguration 1
          exampleState tokenlessRequest)
     = Inr (ProxyWeb ''http://tiles.example.com/arcgis?f=json'' (Some ''tiles.example.com''))
   \<and> requestParameters queryRequest (partsWithQuery ''x=1'') queryServerUrl
     = Inr [(''f'', ''json''), (''x'', ''1'')]
   \<and> mergedParametersSpec [(''f'', ''json'')] [(''x'', ''1'')] None ''x'' = Some ''1''
   \<and> fst (processRequest plainPathNode (setConfiguration queryConfiguration) queryConfiguration 1
          exampleState queryRequest)
     = Inr (ProxyWeb ''http://tiles.example.com/arcgis?f=json?f=json'' (Some ''tiles.example.com''))"
proof -
  have served: "proxyServer (exampleState\<lparr>attemptedRequests := attemptedRequests exampleState + 1\<rparr>)"
    by (simp add: exampleState_def)
  have tParse: "parseURLRequest plainPathNode (req_url tokenlessRequest) (listenURI tokenConfiguration)
      = Inr (partsWithQuery ''f=json'')"
    using token_parse
    by (simp add: tokenlessRequest_def exampleRequest_def tokenConfiguration_def exampleConfiguration_def)
  have tNotPing: "listenPath (partsWithQuery ''f=json'') \<noteq> localPingURL tokenConfiguration"
    and tNotEcho: "Some (proxyPath (partsWithQuery ''f=json'')) \<noteq> localEchoURL tokenConfiguration"
    and tNotStatus: "listenPath (partsWithQuery ''f=json'') \<noteq> localStatusURL tokenConfiguration"
    by (simp_all add: tokenConfiguration_def exampleConfiguration_def partsWithQuery_def)
  have tValid: "isValidURLRequest tokenConfiguration (listenPath (partsWithQuery ''f=json''))"
    by (simp add: isValidURLRequest_def tokenConfiguration_def exampleConfiguration_def
        partsWithQuery_def)
  have tFree: "\<not> useRateMeter tokenServerUrl"
    by (simp add: tokenServerUrl_def exampleConfigured_def)
  have tokenless: "fst (processRequest plainPathNode (setConfiguration tokenConfiguration)
          tokenConfiguration 1 exampleState tokenlessRequest)
     = Inr (ProxyWeb ''http://tiles.example.com/arcgis?f=json'' (Some ''tiles.example.com''))"
    unfolding processRequest_unmetered [OF tParse token_referrer tNotPing tNotEcho tNotStatus tValid
        token_match tFree]
    by (rule token_forwarded [OF served])
  have qParse: "parseURLRequest plainPathNode (req_url queryRequest) (listenURI queryConfiguration)
      = Inr (partsWithQuery ''x=1'')"
    using query_parse
    by (simp add: queryRequest_def exampleRequest_def queryConfiguration_def exampleConfiguration_def)
  have qNotPing: "listenPath (partsWithQuery ''x=1'') \<noteq> localPingURL queryConfiguration"
    and qNotEcho: "Some (proxyPath (partsWithQuery ''x=1'')) \<noteq> localEchoURL queryConfiguration"
    and qNotStatus: "listenPath (partsWithQuery ''x=1'') \<noteq> localStatusURL queryConfiguration"
    by (simp_all add: queryConfiguration_def exampleConfiguration_def partsWithQuery_def)
  have qValid: "isValidURLRequest queryConfiguration (listenPath (partsWithQuery ''x=1''))"
    by (simp add: isValidURLRequest_def queryConfiguration_def exampleConfiguration_def
        partsWithQuery_def)
  have qFree: "\<not> useRateMeter queryServerUrl"
    by (simp add: queryServerUrl_def exampleConfigured_def)
  have overlaid: "fst (processRequest plainPathNode (setConfiguration queryConfiguration)
          queryConfiguration 1 exampleState queryRequest)
     = Inr (ProxyWeb ''http://tiles.example.com/arcgis?f=json?f=json'' (Some ''tiles.example.com''))"
    unfolding processRequest_unmetered [OF qParse query_referrer qNotPing qNotEcho qNotStatus qValid
        query_match qFree]
    by (rule query_forwarded [OF served])
  have spec: "mergedParametersSpec [] [(''f'', ''json'')] (Some ''T'') ''token'' = Some ''T''"
    "mergedParametersSpec [(''f'', ''json'')] [(''x'', ''1'')] None ''x'' = Some ''1''"
    by (simp_all add: mergedParametersSpec_def)
  show ?thesis
    using token_parameters query_parameters tokenless overlaid spec by blast
qed

section \<open>Finding the token\<close>

lemma indexOfFrom_searchFrom: "indexOfFrom s needle i = searchFrom (prefix needle) s i"
  by (induction s arbitrary: i) simp_all

lemma indexOf_search: "indexOf s needle = search s (prefix needle)"
  by (simp add: indexOf_def search_def indexOfFrom_searchFrom)

lemma searchFrom_first:
  "k \<le> length s \<Longrightarrow> m (drop k s) \<Longrightarrow> (\<forall>j<k. \<not> m (drop j s)) \<Longrightarrow>
   searchFrom m s i = int i + int k"
proof (induction s arbitrary: i k)
  case Nil
  then show ?case by simp
next
  case (Cons c cs)
  show ?case
  proof (cases k)
    case 0
    then show ?thesis using Cons.prems by simp
  next
    case (Suc k')
    have "\<not> m (c # cs)" using Cons.prems(3) Suc by force
    moreover have "searchFrom m cs (Suc i) = int (Suc i) + int k'"
    proof (rule Cons.IH)
      show "k' \<le> length cs" using Cons.prems(1) Suc by simp
      show "m (drop k' cs)" using Cons.prems(2) Suc by simp
      show "\<forall>j<k'. \<not> m (drop j cs)"
      proof (intro allI impI)
        fix j assume "j < k'"
        then have "\<not> m (drop (Suc j) (c # cs))" using Cons.prems(3) Suc by blast
        then show "\<not> m (drop j cs)" by simp
      qed
    qed
    ultimately show ?thesis using Suc by simp
  qed
qed

lemma searchFrom_none:
  "(\<forall>j\<le>length s. \<not> m (drop j s)) \<Longrightarrow> searchFrom m s i = - 1"
proof (induction s arbitrary: i)
  case Nil
  then show ?case by simp
next
  case (Cons c cs)
  have "\<not> m (c # cs)" using Cons.prems by force
  moreover have "searchFrom m cs (Suc i) = - 1"
  proof (rule Cons.IH, intro allI impI)
    fix j assume "j \<le> length cs"
    then have "\<not> m (drop (Suc j) (c # cs))" using Cons.prems by force
    then show "\<not> m (drop j cs)" by simp
  qed
  ultimately show ?case by simp
qed

lemma searchFrom_range: "searchFrom m s i = - 1 \<or> int i \<le> searchFrom m s i"
  by (induction s arbitrary: i) (auto, force)

lemma searchFrom_negative:
  "searchFrom m s i < 0 \<Longrightarrow> \<forall>j\<le>length s. \<not> m (drop j s)"
proof (induction s arbitrary: i)
  case Nil
  then show ?case by (simp split: if_splits)
next
  case (Cons c cs)
  have h: "\<not> m (c # cs)" and r: "searchFrom m cs (Suc i) < 0"
    using Cons.prems by (simp_all split: if_splits)
  show ?case
  proof (intro allI impI)
    fix j assume j: "j \<le> length (c # cs)"
    show "\<not> m (drop j (c # cs))"
    proof (cases j)
      case 0
      then show ?thesis using h by simp
    next
      case (Suc j')
      then show ?thesis using Cons.IH [OF r] j by simp
    qed
  qed
qed

lemma searchFrom_position:
  "searchFrom m s i = int i + int k \<Longrightarrow> \<forall>j<k. \<not> m (drop j s)"
proof (induction s arbitrary: i k)
  case Nil
  then show ?case by (simp split: if_splits)
next
  case (Cons c cs)
  show ?case
  proof (cases "m (c # cs)")
    case True
    then have "k = 0" using Cons.prems by simp
    then show ?thesis by simp
  next
    case False
    then have r: "searchFrom m cs (Suc i) = int i + int k" using Cons.prems by simp
    have "int (Suc i) \<le> searchFrom m cs (Suc i)"
      using searchFrom_range [of m cs "Suc i"] r by auto
    then obtain k' where k: "k = Suc k'" using r by (cases k) auto
    have ih: "\<forall>j<k'. \<not> m (drop j cs)"
      using Cons.IH [of "Suc i" k'] r k by simp
    show ?thesis
    proof (intro allI impI)
      fix j assume "j < k"
      then show "\<not> m (drop j (c # cs))"
        using False ih k by (cases j) auto
    qed
  qed
qed

lemma trim_nonempty:
  assumes "c \<in> set s" and "\<not> isWhiteSpace c"
  shows "trim s \<noteq> []"
proof -
  let ?s1 = "dropWhile isWhiteSpace s"
  have n1: "?s1 \<noteq> []" using assms by (auto simp: dropWhile_eq_Nil_conv)
  then have "\<not> isWhiteSpace (hd ?s1)" by (rule hd_dropWhile)
  moreover have "hd ?s1 \<in> set (rev ?s1)" using n1 by simp
  ultimately have "dropWhile isWhiteSpace (rev ?s1) \<noteq> []"
    by (auto simp: dropWhile_eq_Nil_conv)
  then show ?thesis by (simp add: trim_def)
qed

lemma matchesQueryToken_iff:
  "matchesQueryToken ''token'' r \<longleftrightarrow>
     prefix ''token='' r \<or> (\<exists>c cs. r = c # cs \<and> c \<in> set ''?&/'' \<and> prefix ''token='' cs)"
  by (cases r) (auto simp: matchesQueryToken_def)

lemma drop_Cons_tail: "drop j s = c # cs \<Longrightarrow> cs = drop (Suc j) s"
  by (metis drop_Suc list.sel(3) tl_drop)

lemma indexOf_char_append:
  "c \<notin> set a \<Longrightarrow> indexOf (a @ c # r) [c] = int (length a)"
proof -
  assume c: "c \<notin> set a"
  have "searchFrom (prefix [c]) (a @ c # r) 0 = int 0 + int (length a)"
  proof (rule searchFrom_first)
    show "length a \<le> length (a @ c # r)" by simp
    show "prefix [c] (drop (length a) (a @ c # r))" by simp
    show "\<forall>j<length a. \<not> prefix [c] (drop j (a @ c # r))"
    proof (intro allI impI)
      fix j assume j: "j < length a"
      then have "drop j (a @ c # r) = a ! j # drop (Suc j) a @ c # r"
        by (simp add: Cons_nth_drop_Suc)
      moreover have "a ! j \<noteq> c" using c j by auto
      ultimately show "\<not> prefix [c] (drop j (a @ c # r))" by simp
    qed
  qed
  then show ?thesis by (simp add: indexOf_search search_def)
qed

lemma indexOf_char_absent: "c \<notin> set a \<Longrightarrow> indexOf a [c] = - 1"
proof -
  assume c: "c \<notin> set a"
  have "searchFrom (prefix [c]) a 0 = - 1"
  proof (rule searchFrom_none, intro allI impI)
    fix j assume "j \<le> length a"
    show "\<not> prefix [c] (drop j a)"
    proof (cases "drop j a")
      case Nil
      then show ?thesis by simp
    next
      case (Cons x xs)
      then have "x \<in> set a" by (metis in_set_dropD list.set_intros(1))
      then show ?thesis using c Cons by auto
    qed
  qed
  then show ?thesis by (simp add: indexOf_search search_def)
qed


lemma value_after_token:
  assumes "CHR ''&'' \<notin> set X"
    and "post = [] \<or> (X \<noteq> [] \<and> take 1 post = ''&'')"
  shows "(let ampersand = indexOf (X @ post) ''&''
          in if ampersand > 0 then substr2 (X @ post) 0 ampersand else X @ post) = X"
proof (cases post)
  case Nil
  then show ?thesis using assms(1) by (simp add: indexOf_char_absent)
next
  case (Cons c post')
  then have c: "c = CHR ''&''" and x: "X \<noteq> []" using assms(2) by simp_all
  have "indexOf (X @ post) ''&'' = int (length X)"
    using indexOf_char_append [OF assms(1), of post'] Cons c by simp
  then show ?thesis using x by (simp add: substr2_def substr_def)
qed

lemma query_form_found:
  assumes s: "source = pre @ ''token='' @ X @ post"
    and first: "indexOf source ''token='' = int (length pre)"
    and amp: "CHR ''&'' \<notin> set X"
    and post: "post = [] \<or> (X \<noteq> [] \<and> take 1 post = ''&'')"
  shows "findTokenInString source ''token'' = X"
proof -
  let ?m = "matchesQueryToken ''token''"
  have earlier: "\<forall>j<length pre. \<not> prefix ''token='' (drop j source)"
    using searchFrom_position [of "prefix ''token=''" source 0 "length pre"] first
    by (simp add: indexOf_search search_def)
  have trimmed: "length (trim source) > 0"
    using trim_nonempty [of "CHR ''t''" source] s by (simp add: isWhiteSpace_def)
  have tok: "length (trim ''token'') > 0"
    by (simp add: trim_def isWhiteSpace_def)
  have tail: "(let ampersand = indexOf (X @ post) ''&''
          in if ampersand > 0 then substr2 (X @ post) 0 ampersand else X @ post) = X"
    by (rule value_after_token [OF amp post])
  show ?thesis
  proof (cases "pre \<noteq> [] \<and> last pre \<in> set ''?&/''")
    case True
    then obtain pre' c where pre: "pre = pre' @ [c]" and c: "c \<in> set ''?&/''"
      by (metis append_butlast_last_id)
    have found: "search source ?m = int (length pre')"
    proof -
      have "searchFrom ?m source 0 = int 0 + int (length pre')"
      proof (rule searchFrom_first)
        show "length pre' \<le> length source" using s pre by simp
        show "?m (drop (length pre') source)"
          using s pre c by (simp add: matchesQueryToken_iff)
        show "\<forall>j<length pre'. \<not> ?m (drop j source)"
        proof (intro allI impI)
          fix j assume j: "j < length pre'"
          have a: "\<not> prefix ''token='' (drop j source)"
            using earlier j pre by simp
          have b: "\<not> prefix ''token='' (drop (Suc j) source)"
            using earlier j pre by simp
          show "\<not> ?m (drop j source)"
            using a b by (auto simp: matchesQueryToken_iff dest: drop_Cons_tail)
        qed
      qed
      then show ?thesis by (simp add: search_def)
    qed
    define V where "V = c # ''token='' @ X @ post"
    have v: "substr source (int (length pre')) = V"
      using s pre by (simp add: substr_def V_def)
    have eq: "indexOf V ''='' = 6"
      using c by (auto simp: indexOf_def V_def)
    have ae: "substr V 7 = X @ post"
      by (simp add: substr_def V_def)
    show ?thesis
      using trimmed tok tail
      by (simp add: findTokenInString_def found v eq ae Let_def)
  next
    case False
    have found: "search source ?m = int (length pre)"
    proof -
      have "searchFrom ?m source 0 = int 0 + int (length pre)"
      proof (rule searchFrom_first)
        show "length pre \<le> length source" using s by simp
        show "?m (drop (length pre) source)"
          using s by (simp add: matchesQueryToken_iff)
        show "\<forall>j<length pre. \<not> ?m (drop j source)"
        proof (intro allI impI)
          fix j assume j: "j < length pre"
          have a: "\<not> prefix ''token='' (drop j source)"
            using earlier j by simp
          have b: "\<not> (\<exists>c cs. drop j source = c # cs \<and> c \<in> set ''?&/'' \<and> prefix ''token='' cs)"
          proof
            assume "\<exists>c cs. drop j source = c # cs \<and> c \<in> set ''?&/'' \<and> prefix ''token='' cs"
            then obtain c cs where d: "drop j source = c # cs" and c: "c \<in> set ''?&/''"
              and p: "prefix ''token='' cs" by blast
            have cs: "cs = drop (Suc j) source" using d by (rule drop_Cons_tail)
            show False
            proof (cases "Suc j < length pre")
              case True
              then show ?thesis using earlier p cs by blast
            next
              case False
              then have last: "Suc j = length pre" using j by simp
              then have "pre \<noteq> []" by auto
              moreover have "last pre = c"
              proof -
                have "source ! j = c" using d by (metis nth_via_drop)
                moreover have "source ! j = pre ! j" using s j by (simp add: nth_append)
                moreover have "pre ! j = last pre"
                  using last [symmetric] \<open>pre \<noteq> []\<close> by (simp add: last_conv_nth)
                ultimately show ?thesis by simp
              qed
              ultimately show ?thesis using \<open>\<not> (pre \<noteq> [] \<and> last pre \<in> set ''?&/'')\<close> c by simp
            qed
          qed
          show "\<not> ?m (drop j source)"
            using a b by (simp add: matchesQueryToken_iff)
        qed
      qed
      then show ?thesis by (simp add: search_def)
    qed
    define V where "V = ''token='' @ X @ post"
    have v: "substr source (int (length pre)) = V"
      using s by (simp add: substr_def V_def)
    have eq: "indexOf V ''='' = 5"
      by (simp add: indexOf_def V_def)
    have ae: "substr V 6 = X @ post"
      by (simp add: substr_def V_def)
    show ?thesis
      using trimmed tok tail
      by (simp add: findTokenInString_def found v eq ae Let_def)
  qed
qed

lemma matchQuoted_first:
  assumes "CHR 0x22 \<notin> set ws" and "CHR 0x22 \<notin> set X"
  shows "matchQuoted (ws @ [CHR 0x22] @ X @ [CHR 0x22] @ post) = Some X"
proof -
  have d: "dropWhile (\<lambda>c. c \<noteq> CHR 0x22) (ws @ [CHR 0x22] @ X @ [CHR 0x22] @ post)
      = CHR 0x22 # X @ CHR 0x22 # post"
    using assms(1) by (auto simp: dropWhile_append3)
  have t: "takeWhile (\<lambda>c. c \<noteq> CHR 0x22) (X @ CHR 0x22 # post) = X"
    using assms(2) by (auto simp: takeWhile_tail takeWhile_eq_all_conv)
  show ?thesis
    unfolding matchQuoted_def d Let_def using t by simp
qed

lemma json_form_found:
  assumes s: "source = pre @ quotedTokenKey @ ws @ [CHR 0x22] @ X @ [CHR 0x22] @ post"
    and none: "indexOf source ''token='' < 0"
    and first: "indexOf source quotedTokenKey = int (length pre)"
    and ws: "CHR 0x22 \<notin> set ws" and x: "CHR 0x22 \<notin> set X"
  shows "findTokenInString source ''token'' = X"
proof -
  let ?m = "matchesQueryToken ''token''"
  have nowhere: "\<forall>j\<le>length source. \<not> prefix ''token='' (drop j source)"
    using searchFrom_negative [of "prefix ''token=''" source 0] none
    by (simp add: indexOf_search search_def)
  have "searchFrom ?m source 0 = - 1"
  proof (rule searchFrom_none, intro allI impI)
    fix j assume j: "j \<le> length source"
    have a: "\<not> prefix ''token='' (drop j source)" using nowhere j by simp
    have b: "\<not> (\<exists>c cs. drop j source = c # cs \<and> c \<in> set ''?&/'' \<and> prefix ''token='' cs)"
    proof
      assume "\<exists>c cs. drop j source = c # cs \<and> c \<in> set ''?&/'' \<and> prefix ''token='' cs"
      then obtain c cs where d: "drop j source = c # cs" and p: "prefix ''token='' cs" by blast
      have cs: "cs = drop (Suc j) source" using d by (rule drop_Cons_tail)
      have "j < length source" using d by (cases "j < length source") auto
      then show False using nowhere p cs by (simp add: Suc_le_eq)
    qed
    show "\<not> ?m (drop j source)" using a b by (simp add: matchesQueryToken_iff)
  qed
  then have q: "search source ?m = - 1" by (simp add: search_def)
  have j: "search source (matchesJsonToken ''token'') = int (length pre)"
  proof -
    have "matchesJsonToken ''token'' = prefix quotedTokenKey"
      by (simp add: matchesJsonToken_def quotedTokenKey_def fun_eq_iff)
    then show ?thesis using first by (simp add: indexOf_search)
  qed
  have trimmed: "length (trim source) > 0"
    using trim_nonempty [of "CHR ''t''" source] s by (simp add: isWhiteSpace_def quotedTokenKey_def)
  have tok: "length (trim ''token'') > 0"
    by (simp add: trim_def isWhiteSpace_def)
  define V where "V = ws @ [CHR 0x22] @ X @ [CHR 0x22] @ post"
  have rest: "substr source n = V" if "n = int (length pre) + 8" for n
    using s that by (simp add: substr_def quotedTokenKey_def nat_add_distrib V_def)
  have quoted: "matchQuoted V = Some X"
    unfolding V_def by (rule matchQuoted_first [OF ws x])
  show ?thesis
    using trimmed tok
    by (simp add: findTokenInString_def q j rest quoted Let_def)
qed


text \<open>
  C3, as stated, fails: the source \<open>mytoken=5;{"token":"X"}\<close> contains the payload
  \<open>{"token":"X"}\<close> and no \<open>token\<close> parameter after \<open>?\<close>, \<open>&\<close> or \<open>/\<close>, and the
  extraction returns \<open>5;{"token":"X"}\<close> instead of \<open>X\<close>: the first pattern matches
  \<open>token=\<close> wherever it stands.
\<close>

theorem token_extraction_counterexample:
  "findTokenInString mixedTokenSource ''token''
     = ''5;{'' @ quotedTokenKey @ [CHR 0x22] @ ''X'' @ [CHR 0x22] @ ''}''"
  by (simp add: findTokenInString_def mixedTokenSource_def quotedTokenKey_def search_def
      matchesQueryToken_def indexOf_def substr_def substr2_def trim_def isWhiteSpace_def Let_def)

text \<open>
  C3, amended: for every source string whose first \<open>token=\<close> is followed by \<open>X\<close>
  and then by the end of the string or, \<open>X\<close> not being empty, by \<open>&\<close> (\<open>X\<close> without
  \<open>&\<close>), token extraction returns exactly \<open>X\<close>; for every source string without any
  \<open>token=\<close> whose first \<open>"token":\<close> is followed, after characters other than a
  double quote, by \<open>"X"\<close> (\<open>X\<close> without a double quote), token extraction returns
  exactly \<open>X\<close>. The query-string form is tried first and is any \<open>token=\<close>, with or
  without \<open>?\<close>, \<open>&\<close> or \<open>/\<close> before it; the JSON form is used only when there is none.
\<close>

theorem token_extraction:
  "(source = pre @ ''token='' @ X @ post \<and> indexOf source ''token='' = int (length pre)
      \<and> CHR ''&'' \<notin> set X \<and> (post = [] \<or> (X \<noteq> [] \<and> take 1 post = ''&''))
    \<longrightarrow> findTokenInString source ''token'' = X)
   \<and> (source = pre @ quotedTokenKey @ ws @ [CHR 0x22] @ X @ [CHR 0x22] @ post
      \<and> indexOf source ''token='' < 0 \<and> indexOf source quotedTokenKey = int (length pre)
      \<and> CHR 0x22 \<notin> set ws \<and> CHR 0x22 \<notin> set X
    \<longrightarrow> findTokenInString source ''token'' = X)"
  using query_form_found [of source pre X post] json_form_found [of source pre ws X post]
  by blast

theorem token_extraction_witness:
  "findTokenInString ''?f=json&token=abc123&x=1'' ''token'' = ''abc123''
   \<and> findTokenInString (''{'' @ quotedTokenKey @ '' '' @ [CHR 0x22] @ ''abc123'' @ [CHR 0x22] @ ''}'')
       ''token'' = ''abc123''"
proof -
  have q: "''?f=json&token=abc123&x=1'' = ''?f=json&'' @ ''token='' @ ''abc123'' @ ''&x=1''
      \<and> indexOf ''?f=json&token=abc123&x=1'' ''token='' = int (length ''?f=json&'')
      \<and> CHR ''&'' \<notin> set ''abc123''
      \<and> (''&x=1'' = [] \<or> (''abc123'' \<noteq> [] \<and> take 1 ''&x=1'' = ''&''))"
    by (simp add: indexOf_def)
  let ?json = "''{'' @ quotedTokenKey @ '' '' @ [CHR 0x22] @ ''abc123'' @ [CHR 0x22] @ ''}''"
  have j: "?json = ''{'' @ quotedTokenKey @ '' '' @ [CHR 0x22] @ ''abc123'' @ [CHR 0x22] @ ''}''
      \<and> indexOf ?json ''token='' < 0 \<and> indexOf ?json quotedTokenKey = int (length ''{'')
      \<and> CHR 0x22 \<notin> set '' '' \<and> CHR 0x22 \<notin> set ''abc123''"
    by (simp add: indexOf_def quotedTokenKey_def)
  from token_extraction [of "''?f=json&token=abc123&x=1''" "''?f=json&''" "''abc123''" "''&x=1''"
      "'' ''"] q
  have first: "findTokenInString ''?f=json&token=abc123&x=1'' ''token'' = ''abc123''"
    by blast
  from token_extraction [of ?json "''{''" "''abc123''" "''}''" "'' ''"] j
  have second: "findTokenInString ?json ''token'' = ''abc123''"
    by blast
  from first second show ?thesis by blast
qed


section \<open>Serialising a query and parsing it again\<close>




































end
